theory Spec2Isabelle
  imports Main "HOL-Library.Sublist"
begin

section \<open>JavaScript values shared by the node layer\<close>

text \<open>
  The dapp is JavaScript. A value that may be \<^verbatim>\<open>undefined\<close> is an \<open>option\<close>
  (\<open>None\<close> is \<^verbatim>\<open>undefined\<close>), an ethers \<^verbatim>\<open>BigNumber\<close> is an \<open>int\<close>
  (arbitrary precision, as the library's), a string is a \<open>string\<close> (the texts the code
  inspects are ASCII). A call of \<^verbatim>\<open>dataflow.set({k1: v1, ...})\<close> is recorded as the
  list of its key/value pairs, in the order the object literal lists them.
\<close>

datatype jsval = JUndefined | JBool bool | JNum int | JStr string

type_synonym set_call = "(string \<times> jsval) list"

text \<open>How a call ends: it returns a value or it throws.\<close>

datatype js_error = TypeError | ReferenceError | DivisionByZero | NumericFault | OtherError string

section \<open>The buy/mint checkbox constraint (dataflow-nodes.js, lines 525-527 and 797-808)\<close>

text \<open>
  \<^verbatim>\<open>let currAllowBuying = true; let currAllowMinting = true;\<close> are module-level
  variables; the node reads them, pushes \<^verbatim>\<open>{ allowBuying: ab, allowMinting: am }\<close>
  and stores the pair back.
\<close>

record allow_flags =
  currAllowBuying :: bool
  currAllowMinting :: bool

definition initial_allow_flags :: allow_flags where
  "initial_allow_flags = \<lparr>currAllowBuying = True, currAllowMinting = True\<rparr>"

definition constrainBuyMintCheckboxes ::
  "bool option \<Rightarrow> bool option \<Rightarrow> allow_flags \<Rightarrow> set_call \<times> allow_flags" where
  "constrainBuyMintCheckboxes allowBuying allowMinting g =
     (let ab0 = (case allowBuying of None \<Rightarrow> True | Some b \<Rightarrow> b);
          am0 = (case allowMinting of None \<Rightarrow> True | Some b \<Rightarrow> b);
          ab = (if ab0 = False \<and> am0 = False then \<not> currAllowBuying g else ab0);
          am = (if ab0 = False \<and> am0 = False then \<not> currAllowMinting g else am0)
      in ([(''allowBuying'', JBool ab), (''allowMinting'', JBool am)],
          \<lparr>currAllowBuying = ab, currAllowMinting = am\<rparr>))"

section \<open>Display formatting (dataflow-nodes.js, lines 84-226)\<close>

text \<open>
  JavaScript numbers are floating point and \<^verbatim>\<open>ethers.utils.formatEther\<close> is library
  code; the formatting functions take them as parameters, gathered in one record:
  \<^item> \<open>parseFloatOf b\<close>: \<^verbatim>\<open>Number.parseFloat(b.toString())\<close>, \<open>None\<close> when it is NaN;
  \<^item> \<open>bnToNumber b\<close>: \<^verbatim>\<open>b.toNumber()\<close>, \<open>None\<close> when it throws or gives NaN;
  \<^item> \<open>times1em9 x\<close>: \<^verbatim>\<open>x * 1e-9\<close>;
  \<^item> \<open>toFixed9 x\<close>: \<^verbatim>\<open>x.toFixed(9)\<close>;
  \<^item> \<open>floorTimes1e6 x\<close>: \<^verbatim>\<open>BigNumber.from(Math.floor(x * 1e6))\<close>, \<open>None\<close> when
    the number is not one \<^verbatim>\<open>BigNumber.from\<close> accepts (it throws there);
  \<^item> \<open>formatEther w\<close>: \<^verbatim>\<open>ethers.utils.formatEther(w)\<close>.
\<close>

record ('b, 'f) jslib =
  parseFloatOf :: "'b \<Rightarrow> 'f option"
  bnToNumber :: "'b \<Rightarrow> 'f option"
  times1em9 :: "'f \<Rightarrow> 'f"
  toFixed9 :: "'f \<Rightarrow> string"
  floorTimes1e6 :: "'f \<Rightarrow> int option"
  formatEther :: "int \<Rightarrow> string"

definition unknown_text :: string where
  "unknown_text = ''(unknown)''"

definition isDigit :: "char \<Rightarrow> bool" where
  "isDigit c = (c \<in> set ''0123456789'')"

definition isAlnum :: "char \<Rightarrow> bool" where
  "isAlnum c = (isDigit c \<or> c \<in> set ''abcdefghijklmnopqrstuvwxyz''
                \<or> c \<in> set ''ABCDEFGHIJKLMNOPQRSTUVWXYZ'')"

text \<open>
  \<^verbatim>\<open>ADDR_REGEXP = /^(0x[a-zA-Z0-9]{3})[a-zA-Z0-9]+([a-zA-Z0-9]{4})$/\<close>: the text
  starts with \<^verbatim>\<open>0x\<close>, everything after it is alphanumeric, and there are at least
  eight such characters; group 1 is the first five characters, group 2 the last four.
\<close>

definition ADDR_REGEXP_match :: "string \<Rightarrow> (string \<times> string) option" where
  "ADDR_REGEXP_match a =
     (if take 2 a = ''0x'' \<and> list_all isAlnum (drop 2 a) \<and> 10 \<le> length a
      then Some (take 5 a, drop (length a - 4) a) else None)"

definition formatAddress :: "string option \<Rightarrow> string" where
  "formatAddress addr =
     (case addr of
        None \<Rightarrow> unknown_text
      | Some a \<Rightarrow>
          if a = [] then unknown_text
          else (case ADDR_REGEXP_match a of
                  None \<Rightarrow> a
                | Some (g1, g2) \<Rightarrow> g1 @ ''...'' @ g2))"

definition toNumber :: "('b, 'f) jslib \<Rightarrow> 'b option \<Rightarrow> 'f option" where
  "toNumber lib bigNum =
     (case bigNum of
        None \<Rightarrow> None
      | Some b \<Rightarrow> (case parseFloatOf lib b of Some n \<Rightarrow> Some n | None \<Rightarrow> bnToNumber lib b))"

definition priceToNumber :: "('b, 'f) jslib \<Rightarrow> 'b option \<Rightarrow> 'f option" where
  "priceToNumber lib price_x1e9 =
     (case toNumber lib price_x1e9 of None \<Rightarrow> None | Some n \<Rightarrow> Some (times1em9 lib n))"

definition formatPrice :: "('b, 'f) jslib \<Rightarrow> 'b option \<Rightarrow> string" where
  "formatPrice lib price_x1e9 =
     (if price_x1e9 \<noteq> None
      then (case priceToNumber lib price_x1e9 of
              Some price \<Rightarrow> toFixed9 lib price
            | None \<Rightarrow> unknown_text)
      else unknown_text)"

text \<open>
  \<^verbatim>\<open>dollarRegexp = /[-]?[0-9]*([.][0-9][0-9])?/\<close> matches at index 0 of every text
  (each part is optional), so \<^verbatim>\<open>formatDollars\<close> never returns \<^verbatim>\<open>undefined\<close>.
\<close>

definition formatDollars :: "string \<Rightarrow> string option" where
  "formatDollars amt =
     (let sign = (if take 1 amt = ''-'' then ''-'' else []);
          r1 = drop (length sign) amt;
          digits = takeWhile isDigit r1;
          r2 = dropWhile isDigit r1;
          cents = (if take 1 r2 = ''.'' \<and> length r2 \<ge> 3 \<and> isDigit (r2 ! 1) \<and> isDigit (r2 ! 2)
                   then take 3 r2 else [])
      in Some (sign @ digits @ cents))"

text \<open>
  \<^verbatim>\<open>!isNaN(c)\<close> on a one-character string: \<^verbatim>\<open>Number(c)\<close> is a number for a digit
  and for a white-space character (which trims to the empty string, read as 0).
\<close>

definition isWhite :: "char \<Rightarrow> bool" where
  "isWhite c = (c \<in> set [CHR '' '', CHR 0x09, CHR 0x0A, CHR 0x0B, CHR 0x0C, CHR 0x0D])"

definition isNaN_char :: "char \<Rightarrow> bool" where
  "isNaN_char c = (\<not> (isDigit c \<or> isWhite c))"

definition targetSF :: nat where
  "targetSF = 12"

fun formatSF_loop :: "string \<Rightarrow> nat \<Rightarrow> bool \<Rightarrow> string \<Rightarrow> string" where
  "formatSF_loop [] numSF hitDot out = out"
| "formatSF_loop (c # cs) numSF hitDot out =
     (if c = CHR ''.''
      then (if numSF \<ge> targetSF then out else formatSF_loop cs numSF True (out @ [c]))
      else if hitDot \<and> numSF \<ge> targetSF then out
      else formatSF_loop cs (if \<not> isNaN_char c then numSF + 1 else numSF) hitDot (out @ [c]))"

definition formatSF :: "string option \<Rightarrow> string" where
  "formatSF num = (case num of None \<Rightarrow> unknown_text | Some s \<Rightarrow> formatSF_loop s 0 False [])"

text \<open>The price object of the \<^verbatim>\<open>priceUSDPerCurrency\<close> node: three optional numbers
  (the fields \<^verbatim>\<open>eth\<close>, \<^verbatim>\<open>matic\<close> and \<^verbatim>\<open>dublr\<close>).\<close>

record 'f price_obj =
  p_eth :: "'f option"
  p_matic :: "'f option"
  p_dublr :: "'f option"

definition endsWith :: "string \<Rightarrow> string \<Rightarrow> bool" where
  "endsWith s suf = suffix suf s"

definition show_currency :: "string option \<Rightarrow> string" where
  "show_currency currency = (case currency of None \<Rightarrow> ''undefined'' | Some c \<Rightarrow> c)"

text \<open>
  \<^verbatim>\<open>BigNumber.div\<close> truncates towards zero and throws on a zero divisor.
\<close>

definition bn_quot :: "int \<Rightarrow> int \<Rightarrow> int" where
  "bn_quot a b = sgn a * sgn b * (\<bar>a\<bar> div \<bar>b\<bar>)"

definition bn_div :: "int \<Rightarrow> int \<Rightarrow> js_error + int" where
  "bn_div a b = (if b = 0 then Inl DivisionByZero else Inr (bn_quot a b))"

text \<open>
  \<^verbatim>\<open>weiToUSD\<close>: the wave dash the source puts before the amount is written
  \<open>~\<close> here.
\<close>

definition weiToUSD ::
  "('b, 'f) jslib \<Rightarrow> int \<Rightarrow> string option \<Rightarrow> 'f price_obj option \<Rightarrow> js_error + string" where
  "weiToUSD lib amtWEI currency priceUSDPerCurrency =
     (case priceUSDPerCurrency of
        None \<Rightarrow> Inr []
      | Some p \<Rightarrow>
          (let price = (case currency of
                          None \<Rightarrow> None
                        | Some c \<Rightarrow> if endsWith c ''ETH'' then p_eth p
                                    else if endsWith c ''MATIC'' then p_matic p
                                    else if c = ''DUBLR'' then p_dublr p
                                    else None)
           in case price of
                None \<Rightarrow> Inr []
              | Some x \<Rightarrow>
                  (case floorTimes1e6 lib x of
                     None \<Rightarrow> Inl NumericFault
                   | Some k \<Rightarrow>
                       (case bn_div (amtWEI * k) 1000000 of
                          Inl e \<Rightarrow> Inl e
                        | Inr amtUSDWEI \<Rightarrow>
                            (case formatDollars (formatSF (Some (formatEther lib amtUSDWEI))) of
                               None \<Rightarrow> Inr []
                             | Some d \<Rightarrow> Inr ('' (~'' @ d @ '' USD)''))))))"

definition weiToDisplay ::
  "('b, 'f) jslib \<Rightarrow> int option \<Rightarrow> string option \<Rightarrow> 'f price_obj option \<Rightarrow> js_error + string" where
  "weiToDisplay lib amtWEI currency priceUSDPerCurrency =
     (case amtWEI of
        None \<Rightarrow> Inr unknown_text
      | Some w \<Rightarrow>
          (case weiToUSD lib w currency priceUSDPerCurrency of
             Inl e \<Rightarrow> Inl e
           | Inr usd \<Rightarrow>
               Inr (formatSF (Some (formatEther lib w)) @ '' '' @ show_currency currency @ usd)))"

definition weiToEthSF :: "('b, 'f) jslib \<Rightarrow> int option \<Rightarrow> string" where
  "weiToEthSF lib amtWEI =
     (case amtWEI of None \<Rightarrow> unknown_text | Some w \<Rightarrow> formatSF (Some (formatEther lib w)))"

definition weiToEthFullPrecision :: "('b, 'f) jslib \<Rightarrow> int option \<Rightarrow> string" where
  "weiToEthFullPrecision lib amtWEI =
     (case amtWEI of None \<Rightarrow> unknown_text | Some w \<Rightarrow> formatEther lib w)"

section \<open>Contract values and the buy button (dataflow-nodes.js, lines 1416-1452)\<close>

text \<open>
  The fields of \<^verbatim>\<open>contractVals\<close> the modelled nodes read. A field the code reads
  through \<^verbatim>\<open>?.\<close> or tests for truthiness may be \<^verbatim>\<open>undefined\<close>.
\<close>

record sell_order =
  priceNWCPerDUBLR_x1e9 :: int
  amountDUBLRWEI :: int

record contract_vals =
  buyingEnabled :: bool
  sellingEnabled :: bool
  mintingEnabled :: bool
  blockGasLimit :: "int option"
  balanceNWCWEI :: "int option"
  mintPriceNWCPerDUBLR_x1e9 :: int
  mySellOrder :: sell_order

text \<open>The object \<^verbatim>\<open>estimateGas\<close> returns; its \<^verbatim>\<open>warningText\<close> is always a string.\<close>

record gas_est =
  gasEstRaw :: "int option"
  gasEstNWCWEI :: "int option"
  warningText :: string

text \<open>The \<^verbatim>\<open>dublr\<close> node's value is an \<^verbatim>\<open>ethers.Contract\<close> object (always truthy).\<close>

datatype contract = Contract string

record 'f buy_params =
  bp_dublr :: contract
  bp_buyAmountNWCWEI :: int
  bp_minimumTokensToBuyOrMintDUBLRWEI :: int
  bp_allowBuying :: bool
  bp_allowMinting :: bool
  bp_gasPriceNWCWEI :: "int option"
  bp_networkCurrency :: "string option"
  bp_priceUSDPerCurrency :: "'f price_obj option"

text \<open>
  \<^verbatim>\<open>buyGasEst?.gasEstRaw || contractVals?.blockGasLimit || 2e7\<close>: a BigNumber object
  is truthy whatever its value, and so is the number \<^verbatim>\<open>2e7\<close>.
\<close>

definition buy_gasLimit :: "gas_est option \<Rightarrow> contract_vals option \<Rightarrow> int option" where
  "buy_gasLimit buyGasEst contractVals =
     (case (case buyGasEst of None \<Rightarrow> None | Some g \<Rightarrow> gasEstRaw g) of
        Some raw \<Rightarrow> Some raw
      | None \<Rightarrow>
          (case (case contractVals of None \<Rightarrow> None | Some cv \<Rightarrow> blockGasLimit cv) of
             Some lim \<Rightarrow> Some lim
           | None \<Rightarrow> Some 20000000))"

definition falsy_bool :: "bool option \<Rightarrow> bool" where
  "falsy_bool b = (b = None \<or> b = Some False)"

definition buyButtonParams_disabled ::
  "contract option \<Rightarrow> contract_vals option \<Rightarrow> int option \<Rightarrow> int option \<Rightarrow> int option \<Rightarrow>
   bool option \<Rightarrow> bool option \<Rightarrow> gas_est option \<Rightarrow> bool option \<Rightarrow> bool" where
  "buyButtonParams_disabled dublr contractVals buyAmountNWCWEI minimumTokensToBuyOrMintDUBLRWEI
       amountBoughtEstDUBLRWEI allowBuying allowMinting buyGasEst termsBuy_in =
     (dublr = None
      \<or> contractVals = None
      \<or> (case contractVals of None \<Rightarrow> False | Some cv \<Rightarrow> \<not> buyingEnabled cv \<and> \<not> mintingEnabled cv)
      \<or> allowBuying = None \<or> allowMinting = None
      \<or> (falsy_bool allowBuying \<and> falsy_bool allowMinting)
      \<or> buyAmountNWCWEI = None \<or> (case buyAmountNWCWEI of None \<Rightarrow> False | Some a \<Rightarrow> a \<le> 0)
      \<or> amountBoughtEstDUBLRWEI = None
      \<or> (case amountBoughtEstDUBLRWEI of None \<Rightarrow> False | Some a \<Rightarrow> a \<le> 0)
      \<or> minimumTokensToBuyOrMintDUBLRWEI = None
      \<or> (case minimumTokensToBuyOrMintDUBLRWEI of None \<Rightarrow> False | Some m \<Rightarrow> m < 0)
      \<or> (case buyGasEst of None \<Rightarrow> False | Some g \<Rightarrow> warningText g \<noteq> [])
      \<or> buy_gasLimit buyGasEst contractVals = None
      \<or> falsy_bool termsBuy_in)"

definition buyButtonParams ::
  "contract option \<Rightarrow> contract_vals option \<Rightarrow> int option \<Rightarrow> int option \<Rightarrow> int option \<Rightarrow>
   bool option \<Rightarrow> bool option \<Rightarrow> gas_est option \<Rightarrow> int option \<Rightarrow> string option \<Rightarrow>
   'f price_obj option \<Rightarrow> bool option \<Rightarrow> 'f buy_params option" where
  "buyButtonParams dublr contractVals buyAmountNWCWEI minimumTokensToBuyOrMintDUBLRWEI
       amountBoughtEstDUBLRWEI allowBuying allowMinting buyGasEst gasPriceNWCWEI
       networkCurrency priceUSDPerCurrency termsBuy_in =
     (if buyButtonParams_disabled dublr contractVals buyAmountNWCWEI
            minimumTokensToBuyOrMintDUBLRWEI amountBoughtEstDUBLRWEI allowBuying allowMinting
            buyGasEst termsBuy_in
      then None
      else (case (dublr, buyAmountNWCWEI, minimumTokensToBuyOrMintDUBLRWEI, allowBuying, allowMinting) of
              (Some d, Some a, Some m, Some ab, Some am) \<Rightarrow>
                Some \<lparr>bp_dublr = d, bp_buyAmountNWCWEI = a,
                      bp_minimumTokensToBuyOrMintDUBLRWEI = m,
                      bp_allowBuying = ab, bp_allowMinting = am,
                      bp_gasPriceNWCWEI = gasPriceNWCWEI,
                      bp_networkCurrency = networkCurrency,
                      bp_priceUSDPerCurrency = priceUSDPerCurrency\<rparr>
            | _ \<Rightarrow> None))"

definition buyButtonEnablement :: "'f buy_params option \<Rightarrow> bool option \<Rightarrow> set_call" where
  "buyButtonEnablement buyButtonParams_v buyTransactionPending =
     [(''buyButtonDisabled_out'',
       JBool (buyButtonParams_v = None \<or> \<not> falsy_bool buyTransactionPending))]"

text \<open>
  The value the two nodes together write to \<^verbatim>\<open>buyButtonDisabled_out\<close>:
  \<^verbatim>\<open>buyButtonEnablement\<close> run on the result of \<^verbatim>\<open>buyButtonParams\<close>.
\<close>

definition buyButtonDisabled_out ::
  "contract option \<Rightarrow> contract_vals option \<Rightarrow> int option \<Rightarrow> int option \<Rightarrow> int option \<Rightarrow>
   bool option \<Rightarrow> bool option \<Rightarrow> gas_est option \<Rightarrow> bool option \<Rightarrow> bool option \<Rightarrow> set_call" where
  "buyButtonDisabled_out dublr contractVals buyAmountNWCWEI minimumTokensToBuyOrMintDUBLRWEI
       amountBoughtEstDUBLRWEI allowBuying allowMinting buyGasEst termsBuy_in
       buyTransactionPending =
     buyButtonEnablement
       (buyButtonParams dublr contractVals buyAmountNWCWEI minimumTokensToBuyOrMintDUBLRWEI
          amountBoughtEstDUBLRWEI allowBuying allowMinting buyGasEst
          (None :: int option) (None :: string option) (None :: unit price_obj option) termsBuy_in)
       buyTransactionPending"

section \<open>The preference store wrapper (idb.js)\<close>

text \<open>
  \<^verbatim>\<open>get\<close> and \<^verbatim>\<open>set\<close> are the functions of the idb-keyval package. A call of
  one of them either throws on the spot (\<open>Threw\<close>: opening the database can throw
  synchronously) or gives a promise (\<open>Gave\<close>), which is then fulfilled or rejected;
  how the call behaves is a parameter of the model. \<^verbatim>\<open>idbGet\<close> awaits the call
  inside \<^verbatim>\<open>try/catch\<close>, which catches both the throw and the rejection.
  \<^verbatim>\<open>idbSet\<close> writes \<^verbatim>\<open>set(key, val).catch(...)\<close> outside any \<^verbatim>\<open>try\<close> and does
  not await it: the handler catches the rejection of the promise, and a throw of the
  call itself leaves the \<^verbatim>\<open>async\<close> function as the rejection of its own promise.
  The result of each function is how its own promise settles, with the lines it logs.
\<close>

datatype 'a promise = Resolved 'a | Rejected js_error

datatype 'a call = Threw js_error | Gave 'a

datatype 'v idb_log = LogIdbFailure js_error | LogIdbGet string 'v | LogIdbSet string 'v

definition idbGet ::
  "(string \<Rightarrow> 'v promise call) \<Rightarrow> bool \<Rightarrow> string \<Rightarrow> 'v \<Rightarrow> 'v promise \<times> 'v idb_log list" where
  "idbGet get DEBUG_IDB key valOnFailure =
     (let (val, failure) = (case get key of
                              Gave (Resolved v) \<Rightarrow> (v, [])
                            | Gave (Rejected e) \<Rightarrow> (valOnFailure, [LogIdbFailure e])
                            | Threw e \<Rightarrow> (valOnFailure, [LogIdbFailure e]))
      in (Resolved val, failure @ (if DEBUG_IDB then [LogIdbGet key val] else [])))"

definition idbSet ::
  "(string \<Rightarrow> 'v \<Rightarrow> unit promise call) \<Rightarrow> bool \<Rightarrow> string \<Rightarrow> 'v
   \<Rightarrow> unit promise \<times> 'v idb_log list" where
  "idbSet set_kv DEBUG_IDB key val =
     (case set_kv key val of
        Threw e \<Rightarrow> (Rejected e, [])
      | Gave p \<Rightarrow>
          (Resolved (),
           (if DEBUG_IDB then [LogIdbSet key val] else [])
           @ (case p of Resolved u \<Rightarrow> [] | Rejected e \<Rightarrow> [LogIdbFailure e])))"

section \<open>Retrying remote calls (dataflow-nodes.js, lines 70-82 and 328-384)\<close>

text \<open>
  What a \<^verbatim>\<open>catch (e)\<close> receives. The code reads \<^verbatim>\<open>e.reason\<close>,
  \<^verbatim>\<open>e?.message\<close> and \<^verbatim>\<open>e.error?.message\<close>; they are taken to be strings
  when present (as the errors of ethers and of \<^verbatim>\<open>fetch\<close> are). \<open>Nullish\<close> is a
  rejection with \<^verbatim>\<open>undefined\<close> or \<^verbatim>\<open>null\<close>, on which reading
  \<^verbatim>\<open>e.reason\<close> throws a TypeError.
\<close>

datatype thrown = Nullish | Thrown (reason: "string option") (message: "string option") (error_message: "string option")

text \<open>
  How an awaited promise behaves: it is fulfilled, it is rejected (a synchronous throw of
  the call that makes it lands in the same \<^verbatim>\<open>catch\<close>), or it never settles.
\<close>

datatype 'a awaited = Fulfilled 'a | RejectedWith thrown | NeverSettles

text \<open>
  How an \<^verbatim>\<open>async\<close> function ends for the one who awaits it: it returns, it throws,
  or it stays suspended on a promise that never settles.
\<close>

datatype 'a completion = Returns 'a | Throws js_error | Blocks

text \<open>
  \<^verbatim>\<open>e.reason ? e.reason : e?.message ? e.message : e.error?.message ? e.error.message
  : "unknown reason"\<close>; the empty string is falsy.
\<close>

definition errMsgOf :: "string option \<Rightarrow> string option \<Rightarrow> string option \<Rightarrow> string" where
  "errMsgOf r m em =
     (case r of Some (c # cs) \<Rightarrow> c # cs
      | _ \<Rightarrow> (case m of Some (c # cs) \<Rightarrow> c # cs
              | _ \<Rightarrow> (case em of Some (c # cs) \<Rightarrow> c # cs
                      | _ \<Rightarrow> ''unknown reason'')))"

definition toLowerChar :: "char \<Rightarrow> char" where
  "toLowerChar c =
     (if c \<in> set ''ABCDEFGHIJKLMNOPQRSTUVWXYZ'' then char_of (of_char c + (32::nat)) else c)"

definition toLowerCase :: "string \<Rightarrow> string" where
  "toLowerCase s = map toLowerChar s"

definition includes_text :: "string \<Rightarrow> string \<Rightarrow> bool" where
  "includes_text s sub = sublist sub s"

text \<open>The error texts the loop retries on (lines 356-366).\<close>

definition isTransient :: "string \<Rightarrow> bool" where
  "isTransient errMsg =
     (let errMsgLower = toLowerCase errMsg
      in includes_text errMsgLower ''rpc error''
         \<or> includes_text errMsgLower ''header not found''
         \<or> includes_text errMsgLower ''failed to fetch''
         \<or> includes_text errMsgLower ''missing revert data''
         \<or> includes_text errMsgLower ''retries exhausted''
         \<or> includes_text errMsgLower ''user aborted a request''
         \<or> includes_text errMsg ''Access-Control-Allow-Origin'')"

definition numRetries :: nat where
  "numRetries = 5"

definition expBackoff :: nat where
  "expBackoff = 2"

definition initialDelay :: nat where
  "initialDelay = 125"

text \<open>
  A run of \<^verbatim>\<open>rpcCall(promiseFn)\<close>: how it ends, how many times it called
  \<^verbatim>\<open>promiseFn\<close>, and the delays it slept, in milliseconds. \<open>promiseFn i\<close> is
  what the call number \<open>i\<close> of \<^verbatim>\<open>promiseFn()\<close> gives: \<open>None\<close> when it returns
  \<^verbatim>\<open>undefined\<close> instead of a promise, else the behaviour of the promise, whose value
  may itself be \<^verbatim>\<open>undefined\<close>.
\<close>

record 'a rpc_run =
  outcome :: "'a option completion"
  attempts :: nat
  sleeps :: "nat list"

function rpcCall_loop ::
  "(nat \<Rightarrow> 'a option awaited option) \<Rightarrow> nat \<Rightarrow> nat \<Rightarrow> nat list \<Rightarrow> 'a rpc_run" where
  "rpcCall_loop promiseFn i delay slept =
     (if i < numRetries
      then (case promiseFn i of
              None \<Rightarrow> \<lparr>outcome = Returns None, attempts = i + 1, sleeps = slept\<rparr>
            | Some (Fulfilled r) \<Rightarrow> \<lparr>outcome = Returns r, attempts = i + 1, sleeps = slept\<rparr>
            | Some NeverSettles \<Rightarrow> \<lparr>outcome = Blocks, attempts = i + 1, sleeps = slept\<rparr>
            | Some (RejectedWith Nullish) \<Rightarrow>
                \<lparr>outcome = Throws TypeError, attempts = i + 1, sleeps = slept\<rparr>
            | Some (RejectedWith (Thrown r m em)) \<Rightarrow>
                if isTransient (errMsgOf r m em)
                then (if i < numRetries - 1
                      then rpcCall_loop promiseFn (i + 1) (delay * expBackoff) (slept @ [delay])
                      else rpcCall_loop promiseFn (i + 1) delay slept)
                else \<lparr>outcome = Returns None, attempts = i + 1, sleeps = slept\<rparr>)
      else \<lparr>outcome = Returns None, attempts = i, sleeps = slept\<rparr>)"
  by pat_completeness auto
termination
  by (relation "measure (\<lambda>(promiseFn, i, delay, slept). numRetries - i)") auto

definition rpcCall :: "(nat \<Rightarrow> 'a option awaited option) \<Rightarrow> 'a rpc_run" where
  "rpcCall promiseFn = rpcCall_loop promiseFn 0 initialDelay []"

text \<open>
  Two kinds of failed attempt: one the loop retries after (a rejection whose text is
  among the transient ones), and one it gives up on (any other rejection). The delays
  of the first \<open>k\<close> retries are \<open>125, 250, ...\<close>: each twice the one before.
\<close>

definition failsTransiently :: "'a option awaited option \<Rightarrow> bool" where
  "failsTransiently a =
     (case a of
        Some (RejectedWith (Thrown r m em)) \<Rightarrow> isTransient (errMsgOf r m em)
      | _ \<Rightarrow> False)"

definition failsForGood :: "'a option awaited option \<Rightarrow> bool" where
  "failsForGood a =
     (case a of
        Some (RejectedWith (Thrown r m em)) \<Rightarrow> \<not> isTransient (errMsgOf r m em)
      | _ \<Rightarrow> False)"

definition backoff_delays :: "nat \<Rightarrow> nat list" where
  "backoff_delays k = map (\<lambda>m. initialDelay * expBackoff ^ m) [0..<k]"

text \<open>
  \<^verbatim>\<open>fetchWithTimeout(resource, options)\<close>: the timer aborts the request after
  \<^verbatim>\<open>options.timeout\<close> milliseconds (8000 when absent), and an aborted
  \<^verbatim>\<open>fetch\<close> rejects with the abort error. The behaviour of \<^verbatim>\<open>fetch\<close> is a
  parameter: it responds or fails after so many milliseconds, or never answers.
\<close>

definition abortError :: thrown where
  "abortError = Thrown None (Some ''The user aborted a request.'') None"

datatype 'r fetch_behaviour = Responds nat 'r | FailsAfter nat thrown | NoAnswer

definition fetchWithTimeout :: "nat option \<Rightarrow> 'r fetch_behaviour \<Rightarrow> 'r option awaited" where
  "fetchWithTimeout timeout_opt f =
     (let timeout = (case timeout_opt of None \<Rightarrow> 8000 | Some t \<Rightarrow> t)
      in case f of
           Responds t r \<Rightarrow> if t < timeout then Fulfilled (Some r) else RejectedWith abortError
         | FailsAfter t e \<Rightarrow> if t < timeout then RejectedWith e else RejectedWith abortError
         | NoAnswer \<Rightarrow> RejectedWith abortError)"




section \<open>Nodes that read the chain and the price API (dataflow-nodes.js, lines 650-701)\<close>

text \<open>
  A \<^verbatim>\<open>Response\<close> is modelled by how its \<^verbatim>\<open>json()\<close> promise behaves. The
  parsed body is given as the three numbers the node reads from it
  (\<^verbatim>\<open>Number.parseFloat(json?.ethereum?.usd)\<close> and so on), \<open>None\<close> where the field
  is missing or parses to NaN.
\<close>

datatype 'f response = Response "'f price_obj awaited"

text \<open>
  \<^verbatim>\<open>contractVals\<close>: \<open>stored\<close> is \<^verbatim>\<open>dataflow.value.contractVals\<close>, the value
  the node last committed.
\<close>

definition contractVals_node ::
  "contract option \<Rightarrow> string option \<Rightarrow> (nat \<Rightarrow> 'cv option awaited option) \<Rightarrow> 'cv option
   \<Rightarrow> 'cv option completion" where
  "contractVals_node dublr wallet getStaticCallValues stored =
     (if dublr = None \<or> wallet = None \<or> wallet = Some [] then Returns None
      else (case outcome (rpcCall getStaticCallValues) of
              Returns None \<Rightarrow> Returns stored
            | Returns (Some values) \<Rightarrow> Returns (Some values)
            | Throws e \<Rightarrow> Throws e
            | Blocks \<Rightarrow> Blocks))"

text \<open>
  \<^verbatim>\<open>{ ...dataflow.value.priceUSDPerCurrency }\<close>: a copy of the stored object, the
  empty object when nothing is stored yet.
\<close>

definition spread_price :: "'f price_obj option \<Rightarrow> 'f price_obj" where
  "spread_price stored =
     (case stored of
        None \<Rightarrow> \<lparr>p_eth = None, p_matic = None, p_dublr = None\<rparr>
      | Some p \<Rightarrow> p)"

text \<open>
  \<^verbatim>\<open>priceUSDPerCurrency\<close>. Everything after the copy runs inside \<^verbatim>\<open>try\<close>; the
  \<^verbatim>\<open>catch\<close> block reads \<^verbatim>\<open>e.message\<close>, which throws on a nullish rejection.
\<close>

definition priceUSDPerCurrency_node ::
  "(nat \<Rightarrow> 'f response fetch_behaviour) \<Rightarrow> 'f price_obj option \<Rightarrow> 'f price_obj completion" where
  "priceUSDPerCurrency_node fetch stored =
     (let price = spread_price stored
      in case outcome (rpcCall (\<lambda>i. Some (fetchWithTimeout (Some 5000) (fetch i)))) of
           Blocks \<Rightarrow> Blocks
         | Throws e \<Rightarrow> Returns price
         | Returns None \<Rightarrow> Returns price
         | Returns (Some (Response body)) \<Rightarrow>
             (case body of
                Fulfilled json \<Rightarrow>
                  Returns (price\<lparr>p_eth := p_eth json, p_matic := p_matic json,
                                 p_dublr := p_dublr json\<rparr>)
              | RejectedWith Nullish \<Rightarrow> Throws TypeError
              | RejectedWith (Thrown r m em) \<Rightarrow> Returns price
              | NeverSettles \<Rightarrow> Blocks))"

text \<open>
  A fetch attempt of the price node fails when it is cut off by the 5000 ms timeout or
  rejects (with a non-nullish error) before it.
\<close>

definition failedFetch :: "'r fetch_behaviour \<Rightarrow> bool" where
  "failedFetch b =
     (case b of
        Responds t r \<Rightarrow> 5000 \<le> t
      | FailsAfter t e \<Rightarrow> 5000 \<le> t \<or> e \<noteq> Nullish
      | NoAnswer \<Rightarrow> True)"

section \<open>Wallet provider events (wallet.js, lines 37-39, 78-152 and 175-178)\<close>

text \<open>
  The module keeps \<^verbatim>\<open>web3ModalProvider\<close>, \<^verbatim>\<open>walletAddr\<close> and \<^verbatim>\<open>chainIdInt\<close>
  in module-level variables. Of the provider the handlers use: how its
  \<^verbatim>\<open>request({method: "eth_accounts"})\<close> behaves, and whether it has
  \<^verbatim>\<open>removeAllListeners\<close> or \<^verbatim>\<open>off\<close>.
\<close>

record provider =
  eth_accounts :: "string list option awaited"
  hasRemoveAllListeners :: bool
  hasOff :: bool

record wallet_state =
  web3ModalProvider :: "provider option"
  walletAddr :: "string option"
  chainIdInt :: "int option"

text \<open>
  What a handler does to the world outside the module, in order: calls of
  \<^verbatim>\<open>dataflow.set\<close>, the page reload, the removal of listeners, closing the provider,
  clearing web3modal's cached provider, \<^verbatim>\<open>idbSet\<close>, and re-labelling the button.
  The promise \<^verbatim>\<open>dataflow.set\<close> returns is taken to resolve where a handler awaits it.
\<close>

datatype effect =
    DataflowSet set_call
  | Reload
  | RemoveAllListeners
  | Off string
  | CloseProvider
  | ClearCachedProvider
  | IdbSet string jsval
  | MakeConnectButton

type_synonym 'a run = "effect list \<times> wallet_state \<times> 'a completion"

definition effects_of :: "'a run \<Rightarrow> effect list" where
  "effects_of r = fst r"

definition ending_of :: "'a run \<Rightarrow> 'a completion" where
  "ending_of r = snd (snd r)"

definition js_address :: "string option \<Rightarrow> jsval" where
  "js_address w = (case w of None \<Rightarrow> JUndefined | Some a \<Rightarrow> JStr a)"

text \<open>\<^verbatim>\<open>ac && ac.length > 0 ? ac[0] : undefined\<close>\<close>

definition first_account :: "string list option \<Rightarrow> string option" where
  "first_account ac = (case ac of Some (a # rest) \<Rightarrow> Some a | _ \<Rightarrow> None)"

definition getAccounts :: "wallet_state \<Rightarrow> string list option completion" where
  "getAccounts st =
     (case web3ModalProvider st of
        None \<Rightarrow> Returns None
      | Some p \<Rightarrow>
          (case eth_accounts p of
             Fulfilled a \<Rightarrow> Returns a
           | RejectedWith e \<Rightarrow> Returns None
           | NeverSettles \<Rightarrow> Blocks))"

definition getWallet :: "string list option \<Rightarrow> wallet_state \<Rightarrow> string option run" where
  "getWallet accounts st =
     (case (case accounts of None \<Rightarrow> getAccounts st | Some a \<Rightarrow> Returns (Some a)) of
        Blocks \<Rightarrow> ([], st, Blocks)
      | Throws e \<Rightarrow> ([], st, Throws e)
      | Returns ac \<Rightarrow>
          ([DataflowSet [(''wallet'', js_address (first_account ac))]],
           st\<lparr>walletAddr := first_account ac\<rparr>,
           Returns (first_account ac)))"

definition disconnectFromProvider :: "wallet_state \<Rightarrow> unit run" where
  "disconnectFromProvider st =
     (let listeners =
            (case web3ModalProvider st of
               None \<Rightarrow> []
             | Some p \<Rightarrow>
                 if hasRemoveAllListeners p then [RemoveAllListeners]
                 else if hasOff p
                 then [Off ''accountsChanged'', Off ''chainChanged'', Off ''connect'',
                       Off ''disconnect'']
                 else []);
          closing = (case web3ModalProvider st of None \<Rightarrow> [] | Some p \<Rightarrow> [CloseProvider])
      in (listeners @ closing
            @ [DataflowSet [(''web3ModalProvider'', JUndefined), (''chainId'', JUndefined),
                            (''wallet'', JUndefined)]],
          \<lparr>web3ModalProvider = None, walletAddr = None, chainIdInt = None\<rparr>,
          Returns ()))"

definition onDisconnectClick :: "wallet_state \<Rightarrow> unit run" where
  "onDisconnectClick st =
     (case disconnectFromProvider st of
        (es, st1, Returns u) \<Rightarrow>
          (es @ [ClearCachedProvider, IdbSet ''walletConnected'' (JBool False),
                 MakeConnectButton],
           st1, Returns ())
      | (es, st1, Throws e) \<Rightarrow> (es, st1, Throws e)
      | (es, st1, Blocks) \<Rightarrow> (es, st1, Blocks))"

definition onAccountsChanged :: "string list option \<Rightarrow> wallet_state \<Rightarrow> unit run" where
  "onAccountsChanged accounts st =
     (case (case accounts of
              None \<Rightarrow> ([], st, Returns None)
            | Some a \<Rightarrow> getWallet (Some a) st) of
        (es, st1, Blocks) \<Rightarrow> (es, st1, Blocks)
      | (es, st1, Throws e) \<Rightarrow> (es, st1, Throws e)
      | (es, st1, Returns w) \<Rightarrow>
          (let st2 = st1\<lparr>walletAddr := w\<rparr>;
               es2 = es @ [DataflowSet [(''wallet'', js_address w)]]
           in if w = None
              then (case onDisconnectClick st2 of (es3, st3, c) \<Rightarrow> (es2 @ es3, st3, c))
              else (es2, st2, Returns ())))"

text \<open>
  \<^verbatim>\<open>onChainChanged\<close>: the write of \<^verbatim>\<open>chainId\<close> is commented out in the source
  (lines 105-110, with the reason: wallets cache values across a chain change), and the
  page is reloaded instead. \<open>numberOf\<close> stands for \<^verbatim>\<open>new Number(chainId.toString())\<close>.
\<close>

definition onChainChanged :: "(string \<Rightarrow> int option) \<Rightarrow> string \<Rightarrow> wallet_state \<Rightarrow> unit run" where
  "onChainChanged numberOf chainId st =
     ([Reload], st\<lparr>chainIdInt := numberOf chainId\<rparr>, Returns ())"

text \<open>
  \<^verbatim>\<open>onConnect\<close>: after \<^verbatim>\<open>getWallet()\<close>, line 117 assigns to \<^verbatim>\<open>chainIdInt\<close>,
  which line 118 declares with \<^verbatim>\<open>const\<close> in the same function body. The assignment
  evaluates its right-hand side (where \<^verbatim>\<open>BigNumber.from\<close> may throw: \<open>fromHex\<close> gives
  \<open>None\<close>) and then throws a ReferenceError, the binding being uninitialised; line 119 is
  never reached. \<open>info_chainId\<close> is \<^verbatim>\<open>info.chainId\<close>.
\<close>

definition onConnect ::
  "(string \<Rightarrow> int option) \<Rightarrow> string option \<Rightarrow> wallet_state \<Rightarrow> unit run" where
  "onConnect fromHex info_chainId st =
     (case getWallet None st of
        (es, st1, Blocks) \<Rightarrow> (es, st1, Blocks)
      | (es, st1, Throws e) \<Rightarrow> (es, st1, Throws e)
      | (es, st1, Returns w) \<Rightarrow>
          (let st2 = st1\<lparr>walletAddr := w\<rparr>
           in case info_chainId of
                None \<Rightarrow> (es, st2, Throws ReferenceError)
              | Some c \<Rightarrow>
                  if c = [] then (es, st2, Throws ReferenceError)
                  else (case fromHex c of
                          None \<Rightarrow> (es, st2, Throws NumericFault)
                        | Some n \<Rightarrow> (es, st2, Throws ReferenceError))))"

definition onDisconnect :: "wallet_state \<Rightarrow> unit run" where
  "onDisconnect st =
     (let st1 = st\<lparr>walletAddr := None, chainIdInt := None\<rparr>;
          es = [DataflowSet [(''chainId'', JUndefined), (''wallet'', JUndefined)]]
      in case onDisconnectClick st1 of (es2, st2, c) \<Rightarrow> (es @ es2, st2, c))"

text \<open>
  The four events of the provider and the handlers \<^verbatim>\<open>onConnectToProvider\<close> binds
  them to with \<^verbatim>\<open>web3ModalProvider.on(...)\<close> (lines 175-178).
\<close>

datatype wallet_event =
    AccountsChanged "string list option"
  | ChainChanged string
  | Connect "string option"
  | Disconnect

definition handle_event ::
  "(string \<Rightarrow> int option) \<Rightarrow> wallet_event \<Rightarrow> wallet_state \<Rightarrow> unit run" where
  "handle_event chainIdOf ev st =
     (case ev of
        AccountsChanged accounts \<Rightarrow> onAccountsChanged accounts st
      | ChainChanged chainId \<Rightarrow> onChainChanged chainIdOf chainId st
      | Connect info_chainId \<Rightarrow> onConnect chainIdOf info_chainId st
      | Disconnect \<Rightarrow> onDisconnect st)"

text \<open>The values a run writes to one node, in order.\<close>

fun writes_to :: "string \<Rightarrow> effect list \<Rightarrow> jsval list" where
  "writes_to k [] = []"
| "writes_to k (DataflowSet kvs # es) = map snd (filter (\<lambda>kv. fst kv = k) kvs) @ writes_to k es"
| "writes_to k (e # es) = writes_to k es"

section \<open>The simulation of buy() (dataflow-nodes.js, lines 126-137 and 1032-1202)\<close>

definition dublrToEthRoundUpClamped :: "int \<Rightarrow> int \<Rightarrow> int \<Rightarrow> int" where
  "dublrToEthRoundUpClamped price_x1e9 amountDUBLRWEI_v maxAmtETH =
     (let amtETH = bn_quot (amountDUBLRWEI_v * price_x1e9 + (1000000000 - 1)) 1000000000
      in if amtETH < maxAmtETH then amtETH else maxAmtETH)"

definition dublrToEth :: "int \<Rightarrow> int \<Rightarrow> int" where
  "dublrToEth price_x1e9 amountDUBLRWEI_v = bn_quot (amountDUBLRWEI_v * price_x1e9) 1000000000"

definition ethToDublr :: "int \<Rightarrow> int \<Rightarrow> js_error + int" where
  "ethToDublr price_x1e9 amtETH = bn_div (amtETH * 1000000000) price_x1e9"

text \<open>
  An entry of the \<^verbatim>\<open>orderbook\<close> node: a sell order, or the extra row the node
  inserts for the mint price (\<^verbatim>\<open>isMintPriceEntry\<close>).
\<close>

record orderbook_entry = sell_order +
  isMintPriceEntry :: bool

text \<open>
  The variables of the simulation. The HTML of the execution plan (\<^verbatim>\<open>result\<close>,
  \<^verbatim>\<open>tableRows\<close>) is display only and is left out: building it reads these variables
  and never writes them; where its formatting throws, the run stops short at a state
  the model also visits.
\<close>

record sim_state =
  orderbookCopy :: "orderbook_entry list"
  buyOrderRemainingNWCWEI :: int
  totBoughtOrMintedDUBLRWEI :: int
  totSpentNWCWEI :: int
  ownSellOrder :: "orderbook_entry option"
  skipMinting :: bool
  skippedBuying :: bool
  numBought :: nat

definition sim_start :: "orderbook_entry list \<Rightarrow> int \<Rightarrow> sim_state" where
  "sim_start orderbook buyAmountNWCWEI =
     \<lparr>orderbookCopy = orderbook, buyOrderRemainingNWCWEI = buyAmountNWCWEI,
      totBoughtOrMintedDUBLRWEI = 0, totSpentNWCWEI = 0, ownSellOrder = None,
      skipMinting = False, skippedBuying = True, numBought = 0\<rparr>"

text \<open>
  One pass through the body of the \<^verbatim>\<open>while\<close> loop (lines 1084-1130): it ends in
  \<^verbatim>\<open>continue\<close> or at the end of the body (\<open>Continue\<close>), in \<^verbatim>\<open>break\<close>, or it throws
  (the division by a zero price in \<^verbatim>\<open>ethToDublr\<close>).
\<close>

datatype step_result = Continue sim_state | Break sim_state | Raise js_error

definition buy_step :: "contract_vals \<Rightarrow> sim_state \<Rightarrow> step_result" where
  "buy_step cv st0 =
     (let st = st0\<lparr>skippedBuying := False\<rparr>
      in case orderbookCopy st of
           [] \<Rightarrow> Raise TypeError
         | sellOrder # rest \<Rightarrow>
             if isMintPriceEntry sellOrder
             then Continue (st\<lparr>orderbookCopy := rest\<rparr>)
             else if ownSellOrder st = None
                     \<and> amountDUBLRWEI (mySellOrder cv) \<noteq> 0
                     \<and> priceNWCPerDUBLR_x1e9 (mySellOrder cv) = priceNWCPerDUBLR_x1e9 sellOrder
                     \<and> amountDUBLRWEI (mySellOrder cv) = amountDUBLRWEI sellOrder
             then Continue (st\<lparr>ownSellOrder := Some sellOrder, orderbookCopy := rest\<rparr>)
             else if 0 < mintPriceNWCPerDUBLR_x1e9 cv
                     \<and> mintPriceNWCPerDUBLR_x1e9 cv < priceNWCPerDUBLR_x1e9 sellOrder
             then Break st
             else (case ethToDublr (priceNWCPerDUBLR_x1e9 sellOrder) (buyOrderRemainingNWCWEI st) of
                     Inl e \<Rightarrow> Raise e
                   | Inr amountBuyerCanAfford \<Rightarrow>
                       if amountBuyerCanAfford = 0
                       then Break (st\<lparr>skipMinting := True\<rparr>)
                       else
                         (let amountToBuyDUBLRWEI =
                                (if amountDUBLRWEI sellOrder < amountBuyerCanAfford
                                 then amountDUBLRWEI sellOrder else amountBuyerCanAfford);
                              amountToChargeBuyerNWCWEI =
                                dublrToEthRoundUpClamped (priceNWCPerDUBLR_x1e9 sellOrder)
                                  amountToBuyDUBLRWEI (buyOrderRemainingNWCWEI st);
                              sellOrderRemainingDUBLRWEI =
                                amountDUBLRWEI sellOrder - amountToBuyDUBLRWEI
                          in Continue (st\<lparr>
                               orderbookCopy :=
                                 (if sellOrderRemainingDUBLRWEI = 0 then rest
                                  else sellOrder\<lparr>amountDUBLRWEI := sellOrderRemainingDUBLRWEI\<rparr> # rest),
                               totBoughtOrMintedDUBLRWEI :=
                                 totBoughtOrMintedDUBLRWEI st + amountToBuyDUBLRWEI,
                               buyOrderRemainingNWCWEI :=
                                 buyOrderRemainingNWCWEI st - amountToChargeBuyerNWCWEI,
                               totSpentNWCWEI := totSpentNWCWEI st + amountToChargeBuyerNWCWEI,
                               numBought := numBought st + 1\<rparr>))))"

definition loop_condition :: "contract_vals \<Rightarrow> bool \<Rightarrow> sim_state \<Rightarrow> bool" where
  "loop_condition cv allowBuying st =
     (buyingEnabled cv \<and> allowBuying \<and> 0 < buyOrderRemainingNWCWEI st \<and> orderbookCopy st \<noteq> [])"

lemma bn_quot_nonneg: "0 \<le> a \<Longrightarrow> 0 < b \<Longrightarrow> bn_quot a b = a div b"
  by (cases "a = 0") (simp_all add: bn_quot_def)

lemma bn_quot_round_up_pos: "1 \<le> x \<Longrightarrow> 1 \<le> bn_quot (x + (1000000000 - 1)) 1000000000"
  by (simp add: bn_quot_nonneg)

lemma bn_quot_times_divisor_pos:
  assumes "0 < a" and "bn_quot a p \<noteq> 0"
  shows "1 \<le> bn_quot a p * p"
proof -
  define k where "k = \<bar>a\<bar> div \<bar>p\<bar>"
  have q: "bn_quot a p = sgn p * k"
    using assms(1) by (simp add: bn_quot_def k_def)
  have p: "p \<noteq> 0" and k0: "k \<noteq> 0"
    using assms(2) q by auto
  have "0 \<le> k" unfolding k_def by (rule pos_imp_zdiv_nonneg_iff [THEN iffD2]) (use p in simp_all)
  with k0 have k: "1 \<le> k" by simp
  have "bn_quot a p * p = k * \<bar>p\<bar>"
    using q by (simp add: abs_sgn mult.commute mult.left_commute)
  moreover have "1 \<le> \<bar>p\<bar>" using p by simp
  moreover have "1 * 1 \<le> k * \<bar>p\<bar>"
    by (rule mult_mono) (use k \<open>1 \<le> \<bar>p\<bar>\<close> in simp_all)
  ultimately show ?thesis by simp
qed

lemma buy_step_decreases:
  assumes "0 < buyOrderRemainingNWCWEI st" and "buy_step cv st = Continue st'"
  shows "length (orderbookCopy st') < length (orderbookCopy st)
         \<or> (length (orderbookCopy st') = length (orderbookCopy st)
            \<and> 0 \<le> buyOrderRemainingNWCWEI st'
            \<and> buyOrderRemainingNWCWEI st' < buyOrderRemainingNWCWEI st)"
proof (cases "orderbookCopy st")
  case Nil
  then show ?thesis using assms(2) by (simp add: buy_step_def)
next
  case (Cons sellOrder rest)
  let ?R = "buyOrderRemainingNWCWEI st"
  let ?p = "priceNWCPerDUBLR_x1e9 sellOrder"
  show ?thesis
  proof (cases "ethToDublr ?p ?R")
    case (Inl e)
    then show ?thesis using assms(2) Cons
      by (auto simp: buy_step_def Let_def split: if_splits)
  next
    case (Inr afford)
    then have afford: "afford = bn_quot (?R * 1000000000) ?p" and p: "?p \<noteq> 0"
      by (auto simp: ethToDublr_def bn_div_def split: if_splits)
    show ?thesis
    proof (cases "afford \<noteq> 0 \<and> amountDUBLRWEI sellOrder - (if amountDUBLRWEI sellOrder < afford
                 then amountDUBLRWEI sellOrder else afford) \<noteq> 0")
      case False
      then show ?thesis using assms(2) Cons Inr
        by (auto simp: buy_step_def Let_def split: if_splits)
    next
      case True
      then have buy: "(if amountDUBLRWEI sellOrder < afford then amountDUBLRWEI sellOrder else afford)
            = afford" and nz: "afford \<noteq> 0"
        by (auto split: if_splits)
      have "1 \<le> afford * ?p"
        using bn_quot_times_divisor_pos [of "?R * 1000000000" ?p] assms(1) nz afford by simp
      then have "1 \<le> bn_quot (afford * ?p + (1000000000 - 1)) 1000000000"
        by (rule bn_quot_round_up_pos)
      then have charge: "1 \<le> dublrToEthRoundUpClamped ?p afford ?R
          \<and> dublrToEthRoundUpClamped ?p afford ?R \<le> ?R"
        using assms(1) by (simp add: dublrToEthRoundUpClamped_def Let_def)
      show ?thesis using assms(2) Cons Inr True buy charge
        by (auto simp: buy_step_def Let_def split: if_splits)
    qed
  qed
qed

text \<open>The \<^verbatim>\<open>while\<close> loop: the state it leaves, or the error it throws.\<close>

function buy_loop :: "contract_vals \<Rightarrow> bool \<Rightarrow> sim_state \<Rightarrow> js_error + sim_state" where
  "buy_loop cv allowBuying st =
     (if loop_condition cv allowBuying st
      then (case buy_step cv st of
              Continue st' \<Rightarrow> buy_loop cv allowBuying st'
            | Break st' \<Rightarrow> Inr st'
            | Raise e \<Rightarrow> Inl e)
      else Inr st)"
  by pat_completeness auto
termination
proof (relation "measures [\<lambda>(cv, allowBuying, st). length (orderbookCopy st),
                           \<lambda>(cv, allowBuying, st). nat (buyOrderRemainingNWCWEI st)]")
  show "wf (measures [\<lambda>(cv, allowBuying, st). length (orderbookCopy st),
                      \<lambda>(cv, allowBuying, st). nat (buyOrderRemainingNWCWEI st)])"
    by simp
next
  fix cv allowBuying st st'
  assume "loop_condition cv allowBuying st" and "buy_step cv st = Continue st'"
  then show "((cv, allowBuying, st'), (cv, allowBuying, st))
        \<in> measures [\<lambda>(cv, allowBuying, st). length (orderbookCopy st),
                     \<lambda>(cv, allowBuying, st). nat (buyOrderRemainingNWCWEI st)]"
    using buy_step_decreases [of st cv st'] by (auto simp: loop_condition_def)
qed

text \<open>
  The states the loop passes through, one after each pass through its body, starting
  with the state it is entered in.
\<close>

function buy_states :: "contract_vals \<Rightarrow> bool \<Rightarrow> sim_state \<Rightarrow> sim_state list" where
  "buy_states cv allowBuying st =
     st # (if loop_condition cv allowBuying st
           then (case buy_step cv st of
                   Continue st' \<Rightarrow> buy_states cv allowBuying st'
                 | Break st' \<Rightarrow> [st']
                 | Raise e \<Rightarrow> [])
           else [])"
  by pat_completeness auto
termination
proof (relation "measures [\<lambda>(cv, allowBuying, st). length (orderbookCopy st),
                           \<lambda>(cv, allowBuying, st). nat (buyOrderRemainingNWCWEI st)]")
  show "wf (measures [\<lambda>(cv, allowBuying, st). length (orderbookCopy st),
                      \<lambda>(cv, allowBuying, st). nat (buyOrderRemainingNWCWEI st)])"
    by simp
next
  fix cv allowBuying st st'
  assume "loop_condition cv allowBuying st" and "buy_step cv st = Continue st'"
  then show "((cv, allowBuying, st'), (cv, allowBuying, st))
        \<in> measures [\<lambda>(cv, allowBuying, st). length (orderbookCopy st),
                     \<lambda>(cv, allowBuying, st). nat (buyOrderRemainingNWCWEI st)]"
    using buy_step_decreases [of st cv st'] by (auto simp: loop_condition_def)
qed

text \<open>The minting step after the loop (lines 1132-1153).\<close>

definition mint_step :: "contract_vals \<Rightarrow> bool \<Rightarrow> sim_state \<Rightarrow> js_error + sim_state" where
  "mint_step cv allowMinting st =
     (if mintingEnabled cv \<and> allowMinting \<and> \<not> skipMinting st
         \<and> 0 < mintPriceNWCPerDUBLR_x1e9 cv \<and> 0 < buyOrderRemainingNWCWEI st
      then (case ethToDublr (mintPriceNWCPerDUBLR_x1e9 cv) (buyOrderRemainingNWCWEI st) of
              Inl e \<Rightarrow> Inl e
            | Inr amountToMintDUBLRWEI \<Rightarrow>
                (let amountToMintNWCWEI =
                       dublrToEthRoundUpClamped (mintPriceNWCPerDUBLR_x1e9 cv)
                         amountToMintDUBLRWEI (buyOrderRemainingNWCWEI st)
                 in if 0 < amountToMintDUBLRWEI
                    then Inr (st\<lparr>
                           totBoughtOrMintedDUBLRWEI :=
                             totBoughtOrMintedDUBLRWEI st + amountToMintDUBLRWEI,
                           buyOrderRemainingNWCWEI :=
                             buyOrderRemainingNWCWEI st - amountToMintNWCWEI,
                           totSpentNWCWEI := totSpentNWCWEI st + amountToMintNWCWEI\<rparr>)
                    else Inr st))
      else Inr st)"

text \<open>
  What the node computes: the value it returns (\<^verbatim>\<open>totBoughtOrMintedDUBLRWEI\<close>), the
  final state of its variables, the amount shown as "Total to spend", the refunded
  change (shown when positive), the minimum-tokens value it pushes, and the
  average price.
\<close>

record sim_result =
  r_boughtDUBLRWEI :: int
  r_final :: sim_state
  r_totalToSpendNWCWEI :: int
  r_refundedChange :: "int option"
  r_minimumTokens :: int
  r_avgPrice :: int

definition amountBoughtEstDUBLRWEI_node ::
  "contract_vals option \<Rightarrow> int option \<Rightarrow> bool option \<Rightarrow> bool option \<Rightarrow>
   orderbook_entry list option \<Rightarrow> int option \<Rightarrow> js_error + sim_result option" where
  "amountBoughtEstDUBLRWEI_node contractVals buyAmountNWCWEI allowBuying allowMinting
       orderbook maxSlippageFrac_x1e9 =
     (case (contractVals, buyAmountNWCWEI, allowBuying, allowMinting, orderbook,
            maxSlippageFrac_x1e9) of
        (Some cv, Some buyAmount, Some ab, Some am, Some ob, Some slip) \<Rightarrow>
          if \<not> ab \<and> \<not> am then Inr None
          else (case buy_loop cv ab (sim_start ob buyAmount) of
                  Inl e \<Rightarrow> Inl e
                | Inr st1 \<Rightarrow>
                    (case mint_step cv am st1 of
                       Inl e \<Rightarrow> Inl e
                     | Inr st2 \<Rightarrow>
                         (let totalToSpend = buyAmount - buyOrderRemainingNWCWEI st2;
                              bought = totBoughtOrMintedDUBLRWEI st2
                          in Inr (Some
                               \<lparr>r_boughtDUBLRWEI = bought,
                                r_final = st2,
                                r_totalToSpendNWCWEI = totalToSpend,
                                r_refundedChange =
                                  (if 0 < buyOrderRemainingNWCWEI st2
                                   then Some (buyOrderRemainingNWCWEI st2) else None),
                                r_minimumTokens = bn_quot (bought * slip) 1000000000,
                                r_avgPrice =
                                  (if bought = 0 then 0
                                   else bn_quot (totalToSpend * 1000000000 + 500000000) bought)\<rparr>))))
      | _ \<Rightarrow> Inr None)"

text \<open>
  Every state of the simulation for one input: the states of the loop and the state
  after the minting step.
\<close>

definition sim_states ::
  "contract_vals \<Rightarrow> bool \<Rightarrow> bool \<Rightarrow> orderbook_entry list \<Rightarrow> int \<Rightarrow> sim_state list" where
  "sim_states cv ab am ob buyAmount =
     buy_states cv ab (sim_start ob buyAmount)
     @ (case buy_loop cv ab (sim_start ob buyAmount) of
          Inl e \<Rightarrow> []
        | Inr st1 \<Rightarrow> (case mint_step cv am st1 of Inl e \<Rightarrow> [] | Inr st2 \<Rightarrow> [st2]))"

text \<open>
  Conservation of funds at one state: what has been spent and what remains add up to
  the amount the buyer entered, and what remains is not negative.
\<close>

definition funds_conserved :: "int \<Rightarrow> sim_state \<Rightarrow> bool" where
  "funds_conserved buyAmount st =
     (totSpentNWCWEI st + buyOrderRemainingNWCWEI st = buyAmount \<and> 0 \<le> buyOrderRemainingNWCWEI st)"

section \<open>The dataflow core (dataflow-lib.js), modelled from the specification\<close>

text \<open>
  The nodes above call \<^verbatim>\<open>dataflow.set\<close>, \<^verbatim>\<open>dataflow.value\<close> and
  \<^verbatim>\<open>dataflow.register\<close> of \<^verbatim>\<open>./dataflow-lib.js\<close>, a file of the repository
  that is not among the sources at hand. The definitions of this section follow the
  specification's sections 3, 4.2, 4.3 and 4.4 instead.
\<close>

text \<open>
  Modelled from the spec: the Value Store entry of dataflow-lib.js, "a (value,
  generation) pair per node"; every node starts \<^verbatim>\<open>undefined\<close> at generation 0.
\<close>

record entry =
  cur_value :: jsval
  generation :: nat

type_synonym value_store = "string \<Rightarrow> entry"

definition empty_store :: value_store where
  "empty_store = (\<lambda>k. \<lparr>cur_value = JUndefined, generation = 0\<rparr>)"

text \<open>
  Modelled from the spec: the write of one field by dataflow-lib.js's \<^verbatim>\<open>set\<close>.
  "generation increments every time the node's stored value is actually replaced";
  "equal-valued writes are no-ops (identity/deep-equality short-circuit per field,
  independently per name in the batch)".
\<close>

definition write_field :: "value_store \<Rightarrow> string \<times> jsval \<Rightarrow> value_store" where
  "write_field st kv =
     (if cur_value (st (fst kv)) = snd kv then st
      else st(fst kv := \<lparr>cur_value = snd kv, generation = generation (st (fst kv)) + 1\<rparr>))"

text \<open>
  Modelled from the spec: the write entry point of dataflow-lib.js,
  \<^verbatim>\<open>write(partialMapping)\<close>. It returns the store after the batch and "the set of
  directly changed node names" (step 1 of the algorithm of section 4.3).
\<close>

definition write_batch :: "value_store \<Rightarrow> set_call \<Rightarrow> value_store \<times> string list" where
  "write_batch st batch =
     (let st' = foldl write_field st batch
      in (st', filter (\<lambda>k. generation (st' k) \<noteq> generation (st k)) (remdups (map fst batch))))"

text \<open>
  Modelled from the spec: the Graph Registry of dataflow-lib.js, each Derived node
  with "a fixed list of dependency names", and the closure of section 4.3, step 2: "the
  transitive closure of nodes reachable via depends-on-a-changed-node edges".
\<close>

type_synonym graph = "(string \<times> string list) list"

definition dependents :: "graph \<Rightarrow> string list \<Rightarrow> string list" where
  "dependents g names = map fst (filter (\<lambda>nd. list_ex (\<lambda>d. d \<in> set names) (snd nd)) g)"

fun closure_iter :: "nat \<Rightarrow> graph \<Rightarrow> string list \<Rightarrow> string list" where
  "closure_iter 0 g acc = acc"
| "closure_iter (Suc k) g acc = closure_iter k g (remdups (acc @ dependents g acc))"

definition affected :: "graph \<Rightarrow> string list \<Rightarrow> string list" where
  "affected g changed = closure_iter (length g) g (remdups (dependents g changed))"

text \<open>
  Modelled from the spec: writes processed one after the other by dataflow-lib.js, each
  compared with the store as the write before it left it ("on any write, compute the
  set of directly changed node names"); the names changed by any of them are
  gathered.
\<close>

definition write_queue :: "value_store \<Rightarrow> set_call list \<Rightarrow> value_store \<times> string list" where
  "write_queue st calls =
     foldl (\<lambda>acc batch. (fst (write_batch (fst acc) batch), snd acc @ snd (write_batch (fst acc) batch)))
       (st, []) calls"

text \<open>
  Modelled from the spec: what a compute function of dataflow-lib.js resolves with: a
  new value, "the sentinel unchanged", or a failure ("the node's value is NOT
  updated").
\<close>

datatype compute_result = Produced jsval | Unchanged | Failed

text \<open>
  Modelled from the spec: the scheduler state of dataflow-lib.js with the guard of
  section 4.4, "a monotonically increasing pass-generation counter". \<open>inflight\<close> holds
  the node computations that have not resolved yet, each with the generation of the
  pass it belongs to.
\<close>

record core =
  store :: value_store
  passGeneration :: nat
  inflight :: "(string \<times> nat) list"

datatype core_event = ExternalWrite set_call | NodeResolved string nat compute_result

text \<open>
  Modelled from the spec: the re-entrancy rule and the guard of dataflow-lib.js.
  An external write that changes a value starts a new pass "covering the union of the
  new external change-set and the old pass's not-yet-committed closure"; the
  computations of the old pass stay in flight ("allowed to finish"). When a
  computation resolves, "every commit checks: is my pass generation still the current
  generation, before writing to the Value Store; stale generations are silently
  dropped". A write that changes nothing starts no pass.
\<close>

definition core_step :: "graph \<Rightarrow> core \<Rightarrow> core_event \<Rightarrow> core" where
  "core_step g s ev =
     (case ev of
        ExternalWrite batch \<Rightarrow>
          (let w = write_batch (store s) batch
           in if snd w = [] then s
              else (let carried = map fst (filter (\<lambda>c. snd c = passGeneration s) (inflight s));
                        gen' = passGeneration s + 1
                    in s\<lparr>store := fst w, passGeneration := gen',
                         inflight := inflight s
                           @ map (\<lambda>n. (n, gen')) (remdups (carried @ affected g (snd w)))\<rparr>))
      | NodeResolved n gen r \<Rightarrow>
          if (n, gen) \<notin> set (inflight s) then s
          else (let s1 = s\<lparr>inflight := remove1 (n, gen) (inflight s)\<rparr>
                in if gen \<noteq> passGeneration s then s1
                   else (case r of
                           Produced v \<Rightarrow> s1\<lparr>store := fst (write_batch (store s) [(n, v)])\<rparr>
                         | Unchanged \<Rightarrow> s1
                         | Failed \<Rightarrow> s1)))"

definition core_run :: "graph \<Rightarrow> core \<Rightarrow> core_event list \<Rightarrow> core" where
  "core_run g s evs = foldl (core_step g) s evs"

section \<open>Nodes that force a re-evaluation (dataflow-nodes.js, lines 1329-1339)\<close>

text \<open>
  \<^verbatim>\<open>updateListPriceUI\<close>, from the source: when the list price field is blank and the
  mint price is known it calls \<^verbatim>\<open>dataflow.set\<close> twice, first with
  \<^verbatim>\<open>undefined\<close> and then with the formatted mint price. The result is the list of
  its \<^verbatim>\<open>dataflow.set\<close> calls, in order. \<^verbatim>\<open>s.trim() === ""\<close> holds when every
  character of \<open>s\<close> is white space.
\<close>

definition updateListPriceUI ::
  "(int, 'f) jslib \<Rightarrow> string option \<Rightarrow> contract_vals option \<Rightarrow> set_call list" where
  "updateListPriceUI lib listPrice_in contractVals =
     (case (listPrice_in, contractVals) of
        (Some s, Some cv) \<Rightarrow>
          if list_all isWhite s
          then (let listPrice = formatPrice lib (Some (mintPriceNWCPerDUBLR_x1e9 cv))
                in [[(''listPrice_out'', JUndefined), (''listPrice_in'', JUndefined)],
                    [(''listPrice_out'', JStr listPrice), (''listPrice_in'', JStr listPrice)]])
          else []
      | _ \<Rightarrow> [])"

section \<open>Example values\<close>

text \<open>Concrete inputs the theorems below are evaluated on.\<close>

definition failed_to_fetch :: "nat \<Rightarrow> 'a option awaited option" where
  "failed_to_fetch i = Some (RejectedWith (Thrown None (Some ''Failed to fetch'') None))"

definition retry_then_ok :: "nat \<Rightarrow> int option awaited option" where
  "retry_then_ok i = (if i < 2 then failed_to_fetch i else Some (Fulfilled (Some 7)))"

definition example_contract_vals :: contract_vals where
  "example_contract_vals =
     \<lparr>buyingEnabled = True, sellingEnabled = True, mintingEnabled = True,
      blockGasLimit = Some 30000000, balanceNWCWEI = Some 5000,
      mintPriceNWCPerDUBLR_x1e9 = 2000000000,
      mySellOrder = \<lparr>priceNWCPerDUBLR_x1e9 = 0, amountDUBLRWEI = 0\<rparr>\<rparr>"


definition metamask :: provider where
  "metamask = \<lparr>eth_accounts = Fulfilled (Some [''0xAbC1230000000000000000000000000000000001'']),
               hasRemoveAllListeners = True, hasOff = True\<rparr>"

definition connected_state :: wallet_state where
  "connected_state = \<lparr>web3ModalProvider = Some metamask,
                       walletAddr = Some ''0xAbC1230000000000000000000000000000000001'',
                       chainIdInt = Some 137\<rparr>"

definition hex_chain_id :: "string \<Rightarrow> int option" where
  "hex_chain_id s = (if s = ''0x89'' then Some 137 else if s = ''0x1'' then Some 1 else None)"

definition example_order_1 :: orderbook_entry where
  "example_order_1 = \<lparr>priceNWCPerDUBLR_x1e9 = 1500000000, amountDUBLRWEI = 300,
                       isMintPriceEntry = False\<rparr>"

definition example_order_2 :: orderbook_entry where
  "example_order_2 = \<lparr>priceNWCPerDUBLR_x1e9 = 1999999999, amountDUBLRWEI = 1000,
                       isMintPriceEntry = False\<rparr>"

definition example_mint_row :: orderbook_entry where
  "example_mint_row = \<lparr>priceNWCPerDUBLR_x1e9 = 2000000000, amountDUBLRWEI = 0,
                        isMintPriceEntry = True\<rparr>"

definition example_orderbook :: "orderbook_entry list" where
  "example_orderbook = [example_order_1, example_order_2, example_mint_row]"


definition example_graph :: graph where
  "example_graph = [(''listPriceNWCPerDUBLR_x1e9'', [''listPrice_in'', ''contractVals'', ''networkCurrency'']),
                    (''sellAmountDUBLRWEI'', [''sellAmount_in'', ''contractVals'',
                       ''listPriceNWCPerDUBLR_x1e9'', ''totAvailableSellerBalanceDUBLRWEI'',
                       ''networkCurrency'']),
                    (''b'', [''a'']), (''c'', [''a''])]"

definition example_lib :: "(int, int) jslib" where
  "example_lib = \<lparr>parseFloatOf = (\<lambda>b. Some b), bnToNumber = (\<lambda>b. Some b),
                   times1em9 = (\<lambda>x. x), toFixed9 = (\<lambda>x. ''2.000000000''),
                   floorTimes1e6 = (\<lambda>x. Some x), formatEther = (\<lambda>w. ''0.0'')\<rparr>"

definition computing_state :: core where
  "computing_state =
     \<lparr>store = empty_store(''a'' := \<lparr>cur_value = JNum 1, generation = 1\<rparr>),
      passGeneration = 1, inflight = [(''b'', 1), (''c'', 1)]\<rparr>"

definition listed_store :: value_store where
  "listed_store =
     empty_store(''listPrice_in'' := \<lparr>cur_value = JStr ''2.000000000'', generation = 3\<rparr>,
                 ''listPrice_out'' := \<lparr>cur_value = JStr ''2.000000000'', generation = 3\<rparr>)"

section \<open>Theorems: display placeholders\<close>

text \<open>
  C7. For an undefined input each display-formatting function returns the placeholder
  text "(unknown)": \<open>formatPrice\<close>, \<open>weiToDisplay\<close> (which returns it, and does not
  throw), \<open>formatSF\<close>, \<open>weiToEthSF\<close>, and \<open>formatAddress\<close> of a falsy address
  (\<^verbatim>\<open>undefined\<close> or the empty string). The placeholder is not the empty string.
\<close>

theorem unknown_placeholder_for_undefined:
  "formatPrice lib None = ''(unknown)''
   \<and> weiToDisplay lib None currency prices = Inr ''(unknown)''
   \<and> formatSF None = ''(unknown)''
   \<and> weiToEthSF lib None = ''(unknown)''
   \<and> formatAddress None = ''(unknown)''
   \<and> formatAddress (Some '''') = ''(unknown)''
   \<and> unknown_text \<noteq> ''''"
  by (simp add: formatPrice_def weiToDisplay_def formatSF_def weiToEthSF_def
      formatAddress_def unknown_text_def)

section \<open>Theorems: the checkbox constraint\<close>

lemma constrain_checkboxes_one_on_iff:
  "(JBool True \<in> snd ` set (fst (constrainBuyMintCheckboxes ab am g)))
   = (\<not> (ab = Some False \<and> am = Some False \<and> currAllowBuying g \<and> currAllowMinting g))"
  by (cases ab; cases am) (auto simp: constrainBuyMintCheckboxes_def Let_def)

text \<open>
  C10. The claim says that whatever the checkbox inputs and the module-level flags, one
  of the two values written back is true. In the module's initial state
  (\<open>currAllowBuying = currAllowMinting = True\<close>) with both inputs \<^verbatim>\<open>false\<close> the
  node negates the two flags and writes \<^verbatim>\<open>false\<close> to both nodes.
\<close>

theorem constrain_checkboxes_both_off_initially:
  "constrainBuyMintCheckboxes (Some False) (Some False) initial_allow_flags
   = ([(''allowBuying'', JBool False), (''allowMinting'', JBool False)],
      \<lparr>currAllowBuying = False, currAllowMinting = False\<rparr>)"
  by (simp add: constrainBuyMintCheckboxes_def initial_allow_flags_def)

section \<open>Theorems: the buy button\<close>

lemma buy_gasLimit_defined: "buy_gasLimit g cv \<noteq> None"
  by (simp add: buy_gasLimit_def split: option.splits)

lemma buyButtonParams_None_iff:
  "(buyButtonParams dublr cv amt minTok bought ab am gasEst gp nc prices terms = None)
   = buyButtonParams_disabled dublr cv amt minTok bought ab am gasEst terms"
  by (auto simp: buyButtonParams_def buyButtonParams_disabled_def split: option.splits)

lemma buyButtonDisabled_out_eq:
  "buyButtonDisabled_out dublr cv amt minTok bought ab am gasEst terms pending
   = [(''buyButtonDisabled_out'',
       JBool (buyButtonParams_disabled dublr cv amt minTok bought ab am gasEst terms
              \<or> pending = Some True))]"
  by (cases pending)
     (auto simp: buyButtonDisabled_out_def buyButtonEnablement_def buyButtonParams_None_iff
        falsy_bool_def)

text \<open>
  C6 as amended. \<^verbatim>\<open>buyButtonDisabled_out\<close> is written \<^verbatim>\<open>true\<close> whenever the dublr
  contract is undefined, the buy amount is undefined or not positive, the simulated
  amount bought is undefined or not positive, the gas estimate carries a non-empty
  warning text, the terms checkbox is not checked, or a buy transaction is pending.
  It is written \<^verbatim>\<open>false\<close> exactly when all of these requirements hold and, besides,
  the contract values are defined with buying or minting enabled on the exchange, both
  \<^verbatim>\<open>allowBuying\<close> and \<^verbatim>\<open>allowMinting\<close> are defined with one of them true, and
  the minimum-tokens value is defined and not negative.
\<close>

theorem buy_button_disabled_iff:
  "((dublr = None \<or> amt = None \<or> (\<exists>a. amt = Some a \<and> a \<le> 0)
     \<or> bought = None \<or> (\<exists>b. bought = Some b \<and> b \<le> 0)
     \<or> (\<exists>g. gasEst = Some g \<and> warningText g \<noteq> [])
     \<or> terms = None \<or> terms = Some False \<or> pending = Some True)
    \<longrightarrow> buyButtonDisabled_out dublr cv amt minTok bought ab am gasEst terms pending
        = [(''buyButtonDisabled_out'', JBool True)])
   \<and> ((buyButtonDisabled_out dublr cv amt minTok bought ab am gasEst terms pending
        = [(''buyButtonDisabled_out'', JBool False)])
      = ((\<exists>d. dublr = Some d) \<and> (\<exists>a. amt = Some a \<and> 0 < a) \<and> (\<exists>b. bought = Some b \<and> 0 < b)
         \<and> (gasEst = None \<or> (\<exists>g. gasEst = Some g \<and> warningText g = []))
         \<and> terms = Some True \<and> pending \<noteq> Some True
         \<and> (\<exists>c. cv = Some c \<and> (buyingEnabled c \<or> mintingEnabled c))
         \<and> (\<exists>x y. ab = Some x \<and> am = Some y \<and> (x \<or> y))
         \<and> (\<exists>m. minTok = Some m \<and> 0 \<le> m)))"
  unfolding buyButtonDisabled_out_eq
  by (cases dublr; cases amt; cases bought; cases gasEst; cases terms; cases cv; cases ab;
      cases am; cases minTok)
     (auto simp: buyButtonParams_disabled_def falsy_bool_def buy_gasLimit_defined)

theorem buy_button_disabled_iff_witness:
  "buyButtonDisabled_out None (Some example_contract_vals) (Some 1000) (Some 400) (Some 500)
     (Some True) (Some True) None (Some True) (Some False)
   = [(''buyButtonDisabled_out'', JBool True)]
   \<and> buyButtonDisabled_out (Some (Contract ''0x1'')) (Some example_contract_vals) (Some 1000)
       (Some 400) (Some 500) (Some True) (Some True) None (Some True) (Some False)
     = [(''buyButtonDisabled_out'', JBool False)]"
  using buy_button_disabled_iff [where dublr = None and amt = "Some 1000" and bought = "Some 500"
      and gasEst = None and terms = "Some True" and pending = "Some False"
      and cv = "Some example_contract_vals" and minTok = "Some 400" and ab = "Some True"
      and am = "Some True"]
    buy_button_disabled_iff [where dublr = "Some (Contract ''0x1'')" and amt = "Some 1000"
      and bought = "Some 500" and gasEst = None and terms = "Some True"
      and pending = "Some False" and cv = "Some example_contract_vals"
      and minTok = "Some 400" and ab = "Some True" and am = "Some True"]
  by (auto simp: example_contract_vals_def)

text \<open>
  The claim as stated fails: with the dublr contract defined, a positive buy amount, a
  positive simulated amount, no gas warning, the terms checked and no transaction
  pending, the button is still disabled while \<^verbatim>\<open>minimumTokensToBuyOrMintDUBLRWEI\<close>
  is undefined.
\<close>

theorem buy_button_listed_requirements_not_sufficient:
  "buyButtonDisabled_out (Some (Contract ''0x1'')) (Some example_contract_vals) (Some 1000)
     None (Some 500) (Some True) (Some True) None (Some True) (Some False)
   = [(''buyButtonDisabled_out'', JBool True)]"
  by (simp add: buyButtonDisabled_out_eq buyButtonParams_disabled_def)

section \<open>Theorems: the preference store wrapper\<close>

text \<open>
  What the code does achieve: \<open>idbGet\<close> resolves with the stored value when the read
  succeeds and with \<open>valOnFailure\<close> when the read fails, by rejection or by a throw of
  \<^verbatim>\<open>get\<close>, and never rejects; \<open>idbSet\<close> resolves whenever \<^verbatim>\<open>set\<close> gives a promise,
  whether that promise is fulfilled or rejected.
\<close>

lemma idbGet_best_effort:
  "fst (idbGet get dbg key valOnFailure)
   = Resolved (case get key of Gave (Resolved v) \<Rightarrow> v | _ \<Rightarrow> valOnFailure)"
  by (simp add: idbGet_def split: call.splits promise.splits)

lemma idbSet_rejection_caught:
  "set_kv key val = Gave p \<Longrightarrow> fst (idbSet set_kv dbg key val) = Resolved ()"
  by (simp add: idbSet_def)

lemma idbSet_rejects_iff:
  "(fst (idbSet set_kv dbg key val) = Rejected e) = (set_kv key val = Threw e)"
  by (simp add: idbSet_def split: call.splits)

text \<open>
  C8. The claim says \<open>idbSet\<close> never propagates a storage failure to its caller. When
  the call of \<^verbatim>\<open>set\<close> throws synchronously (here with the SecurityError of a browser
  that refuses to open the database), nothing catches it: the promise of \<open>idbSet\<close>
  is rejected with that error, and the caller awaiting it receives the failure.
  \<open>idbGet\<close>, next to it, catches the same throw.
\<close>

theorem idbSet_propagates_synchronous_throw:
  "fst (idbSet (\<lambda>k v. Threw (OtherError ''SecurityError'')) False ''walletConnected'' (JBool True))
     = Rejected (OtherError ''SecurityError'')
   \<and> fst (idbGet (\<lambda>k. Threw (OtherError ''SecurityError'')) False ''walletConnected'' (JBool False))
     = Resolved (JBool False)"
  by (simp add: idbSet_def idbGet_def)
section \<open>Theorems: retrying remote calls and failed reads\<close>

declare rpcCall_loop.simps [simp del]

lemma rpcCall_loop_attempts:
  "i \<le> numRetries \<Longrightarrow> attempts (rpcCall_loop f i d s) \<le> numRetries"
proof (induction f i d s rule: rpcCall_loop.induct)
  case (1 promiseFn i delay slept)
  show ?case
    using 1
    by (subst rpcCall_loop.simps)
       (auto split: option.splits awaited.splits thrown.splits)
qed

lemma rpcCall_loop_sleeps:
  "\<exists>m. i + m \<le> max i (numRetries - 1)
       \<and> sleeps (rpcCall_loop f i d s) = s @ map (\<lambda>k. d * expBackoff ^ k) [0..<m]"
proof (induction f i d s rule: rpcCall_loop.induct)
  case (1 promiseFn i delay slept)
  have base: "\<exists>m. i + m \<le> max i (numRetries - 1)
       \<and> slept = slept @ map (\<lambda>k. delay * expBackoff ^ k) [0..<m]"
    by (rule exI [of _ 0]) simp
  show ?case
  proof (cases "i < numRetries")
    case False
    then show ?thesis using base by (subst rpcCall_loop.simps) simp
  next
    case lt: True
    show ?thesis
    proof (cases "promiseFn i")
      case None
      then show ?thesis using base lt by (subst rpcCall_loop.simps) simp
    next
      case (Some a)
      show ?thesis
      proof (cases a)
        case (Fulfilled r)
        then show ?thesis using base lt Some by (subst rpcCall_loop.simps) simp
      next
        case NeverSettles
        then show ?thesis using base lt Some by (subst rpcCall_loop.simps) simp
      next
        case (RejectedWith e)
        show ?thesis
        proof (cases e)
          case Nullish
          then show ?thesis using base lt Some RejectedWith by (subst rpcCall_loop.simps) simp
        next
          case (Thrown r m em)
          show ?thesis
          proof (cases "isTransient (errMsgOf r m em)")
            case False
            then show ?thesis
              using base lt Some RejectedWith Thrown by (subst rpcCall_loop.simps) simp
          next
            case tr: True
            show ?thesis
            proof (cases "i < numRetries - 1")
              case more: True
              from "1.IH"(1) [OF lt Some RejectedWith Thrown tr more]
              obtain m where m: "i + 1 + m \<le> max (i + 1) (numRetries - 1)"
                and sl: "sleeps (rpcCall_loop promiseFn (i + 1) (delay * expBackoff) (slept @ [delay]))
                     = (slept @ [delay]) @ map (\<lambda>k. delay * expBackoff * expBackoff ^ k) [0..<m]"
                by auto
              have "map (\<lambda>k. delay * expBackoff ^ k) [0..<Suc m]
                    = delay # map (\<lambda>k. delay * expBackoff * expBackoff ^ k) [0..<m]"
                by (simp add: upt_conv_Cons map_Suc_upt [symmetric] del: upt_Suc)
              then have "sleeps (rpcCall_loop promiseFn i delay slept)
                    = slept @ map (\<lambda>k. delay * expBackoff ^ k) [0..<Suc m]"
                using lt Some RejectedWith Thrown tr more sl
                by (subst rpcCall_loop.simps) simp
              moreover have "i + Suc m \<le> max i (numRetries - 1)"
                using m more by simp
              ultimately show ?thesis by blast
            next
              case last: False
              from "1.IH"(2) [OF lt Some RejectedWith Thrown tr last]
              obtain m where m: "i + 1 + m \<le> max (i + 1) (numRetries - 1)"
                and sl: "sleeps (rpcCall_loop promiseFn (i + 1) delay slept)
                     = slept @ map (\<lambda>k. delay * expBackoff ^ k) [0..<m]"
                by auto
              from m last have "m = 0" by simp
              then show ?thesis
                using lt Some RejectedWith Thrown tr last sl
                by (subst rpcCall_loop.simps) simp
            qed
          qed
        qed
      qed
    qed
  qed
qed

lemma rpcCall_loop_returns:
  "(\<forall>j. i \<le> j \<and> j < numRetries \<longrightarrow> f j \<noteq> Some NeverSettles \<and> f j \<noteq> Some (RejectedWith Nullish))
   \<Longrightarrow> \<exists>r. outcome (rpcCall_loop f i d s) = Returns r"
proof (induction f i d s rule: rpcCall_loop.induct)
  case (1 promiseFn i delay slept)
  show ?case
    using 1
    by (subst rpcCall_loop.simps)
       (auto split: option.splits awaited.splits thrown.splits)
qed

lemma rpcCall_loop_all_rejected:
  "(\<forall>j. i \<le> j \<and> j < numRetries \<longrightarrow> (\<exists>r m em. f j = Some (RejectedWith (Thrown r m em))))
   \<Longrightarrow> outcome (rpcCall_loop f i d s) = Returns None"
proof (induction f i d s rule: rpcCall_loop.induct)
  case (1 promiseFn i delay slept)
  show ?case
    using 1
    by (subst rpcCall_loop.simps)
       (fastforce split: option.splits awaited.splits thrown.splits)
qed

lemma rpcCall_loop_value:
  "outcome (rpcCall_loop f i d s) = Returns (Some v)
   \<Longrightarrow> \<exists>j. i \<le> j \<and> j < numRetries \<and> f j = Some (Fulfilled (Some v))"
proof (induction f i d s rule: rpcCall_loop.induct)
  case (1 promiseFn i delay slept)
  show ?case
  proof (cases "i < numRetries")
    case False
    then show ?thesis using "1.prems" by (subst (asm) rpcCall_loop.simps) simp
  next
    case lt: True
    show ?thesis
    proof (cases "\<exists>r m em. promiseFn i = Some (RejectedWith (Thrown r m em)) \<and> isTransient (errMsgOf r m em)")
      case False
      then show ?thesis
        using "1.prems" lt
        by (subst (asm) rpcCall_loop.simps)
           (auto split: option.splits awaited.splits thrown.splits if_splits)
    next
      case True
      then obtain r m em where pf: "promiseFn i = Some (RejectedWith (Thrown r m em))"
        and tr: "isTransient (errMsgOf r m em)" by blast
      show ?thesis
      proof (cases "i < numRetries - 1")
        case more: True
        have "outcome (rpcCall_loop promiseFn (i + 1) (delay * expBackoff) (slept @ [delay])) = Returns (Some v)"
          using "1.prems" lt pf tr more by (subst (asm) rpcCall_loop.simps) simp
        from "1.IH"(1) [OF lt pf refl refl tr more this] show ?thesis
          by (metis add_leD1)
      next
        case last: False
        have "outcome (rpcCall_loop promiseFn (i + 1) delay slept) = Returns (Some v)"
          using "1.prems" lt pf tr last by (subst (asm) rpcCall_loop.simps) simp
        from "1.IH"(2) [OF lt pf refl refl tr last this] show ?thesis
          by (metis add_leD1)
      qed
    qed
  qed
qed

lemma fetchWithTimeout_settles: "fetchWithTimeout t b \<noteq> NeverSettles"
  by (simp add: fetchWithTimeout_def Let_def split: fetch_behaviour.splits)

lemma rpcCall_loop_no_block:
  "(\<forall>j. i \<le> j \<and> j < numRetries \<longrightarrow> f j \<noteq> Some NeverSettles)
   \<Longrightarrow> outcome (rpcCall_loop f i d s) \<noteq> Blocks"
proof (induction f i d s rule: rpcCall_loop.induct)
  case (1 promiseFn i delay slept)
  show ?case
    using 1
    by (subst rpcCall_loop.simps)
       (auto split: option.splits awaited.splits thrown.splits)
qed

lemma rpcCall_loop_retry:
  assumes "failsTransiently (f i)" and "i < numRetries - 1"
  shows "rpcCall_loop f i d s = rpcCall_loop f (i + 1) (d * expBackoff) (s @ [d])"
proof -
  from assms(1) obtain r m em where fi: "f i = Some (RejectedWith (Thrown r m em))"
    and tr: "isTransient (errMsgOf r m em)"
    by (auto simp: failsTransiently_def split: option.splits awaited.splits thrown.splits)
  have "i < numRetries" using assms(2) by simp
  then show ?thesis using fi tr assms(2) by (subst rpcCall_loop.simps) simp
qed

lemma backoff_delays_Suc:
  "backoff_delays (Suc k) = backoff_delays k @ [initialDelay * expBackoff ^ k]"
  by (simp add: backoff_delays_def)

lemma rpcCall_loop_skip:
  "k < numRetries \<Longrightarrow> (\<forall>j<k. failsTransiently (f j))
   \<Longrightarrow> rpcCall f = rpcCall_loop f k (initialDelay * expBackoff ^ k) (backoff_delays k)"
proof (induction k)
  case 0
  show ?case by (simp add: rpcCall_def backoff_delays_def)
next
  case (Suc k)
  then have "rpcCall f = rpcCall_loop f k (initialDelay * expBackoff ^ k) (backoff_delays k)"
    by simp
  also have "\<dots> = rpcCall_loop f (k + 1) (initialDelay * expBackoff ^ k * expBackoff)
                     (backoff_delays k @ [initialDelay * expBackoff ^ k])"
    using Suc.prems by (intro rpcCall_loop_retry) auto
  finally show ?case by (simp add: backoff_delays_Suc mult_ac)
qed

lemma rpcCall_ends_at:
  assumes "k < numRetries" and "\<forall>j<k. failsTransiently (f j)"
  shows "f k = Some (Fulfilled r)
         \<Longrightarrow> rpcCall f = \<lparr>outcome = Returns r, attempts = k + 1, sleeps = backoff_delays k\<rparr>"
    and "f k = None \<or> failsForGood (f k)
         \<Longrightarrow> rpcCall f = \<lparr>outcome = Returns None, attempts = k + 1, sleeps = backoff_delays k\<rparr>"
    and "f k = Some NeverSettles
         \<Longrightarrow> rpcCall f = \<lparr>outcome = Blocks, attempts = k + 1, sleeps = backoff_delays k\<rparr>"
    and "f k = Some (RejectedWith Nullish)
         \<Longrightarrow> rpcCall f = \<lparr>outcome = Throws TypeError, attempts = k + 1, sleeps = backoff_delays k\<rparr>"
proof -
  note sk = rpcCall_loop_skip [OF assms]
  show "f k = Some (Fulfilled r)
      \<Longrightarrow> rpcCall f = \<lparr>outcome = Returns r, attempts = k + 1, sleeps = backoff_delays k\<rparr>"
    using assms(1) unfolding sk by (subst rpcCall_loop.simps) simp
  show "f k = None \<or> failsForGood (f k)
      \<Longrightarrow> rpcCall f = \<lparr>outcome = Returns None, attempts = k + 1, sleeps = backoff_delays k\<rparr>"
    using assms(1) unfolding sk
    by (subst rpcCall_loop.simps)
       (auto simp: failsForGood_def split: option.splits awaited.splits thrown.splits)
  show "f k = Some NeverSettles
      \<Longrightarrow> rpcCall f = \<lparr>outcome = Blocks, attempts = k + 1, sleeps = backoff_delays k\<rparr>"
    using assms(1) unfolding sk by (subst rpcCall_loop.simps) simp
  show "f k = Some (RejectedWith Nullish)
      \<Longrightarrow> rpcCall f = \<lparr>outcome = Throws TypeError, attempts = k + 1, sleeps = backoff_delays k\<rparr>"
    using assms(1) unfolding sk by (subst rpcCall_loop.simps) simp
qed

lemma backoff_delays_4: "backoff_delays 4 = [125, 250, 500, 1000]"
  by (simp add: backoff_delays_def initialDelay_def expBackoff_def upt_rec)

lemma rpcCall_exhausted:
  assumes "\<forall>j<5. failsTransiently (f j)"
  shows "rpcCall f = \<lparr>outcome = Returns None, attempts = 5, sleeps = [125, 250, 500, 1000]\<rparr>"
proof -
  have "rpcCall f = rpcCall_loop f 4 (initialDelay * expBackoff ^ 4) (backoff_delays 4)"
    using assms by (intro rpcCall_loop_skip) (simp_all add: numRetries_def)
  moreover from assms have "failsTransiently (f 4)" by simp
  then obtain r m em where fi: "f 4 = Some (RejectedWith (Thrown r m em))"
    and tr: "isTransient (errMsgOf r m em)"
    by (auto simp: failsTransiently_def split: option.splits awaited.splits thrown.splits)
  have "rpcCall_loop f 4 (initialDelay * expBackoff ^ 4) (backoff_delays 4)
        = rpcCall_loop f 5 (initialDelay * expBackoff ^ 4) (backoff_delays 4)"
    using fi tr by (subst rpcCall_loop.simps) (simp add: numRetries_def)
  moreover have "rpcCall_loop f 5 (initialDelay * expBackoff ^ 4) (backoff_delays 4)
        = \<lparr>outcome = Returns None, attempts = 5, sleeps = backoff_delays 4\<rparr>"
    by (subst rpcCall_loop.simps) (simp add: numRetries_def)
  ultimately show ?thesis by (simp add: backoff_delays_4)
qed

text \<open>
  C3 as amended. A call made through \<open>rpcCall\<close> is attempted again after each
  transient failure, sleeping 125 ms after the first failure and twice the delay
  before after each later one. If the attempts before number \<open>k\<close> (counted from 0,
  \<open>k < 5\<close>) fail transiently, then \<open>rpcCall\<close> has slept the first \<open>k\<close> of the delays
  125, 250, 500, 1000 ms and ends at attempt \<open>k\<close>: it returns the value the attempt is
  fulfilled with, returns \<^verbatim>\<open>undefined\<close> when the attempt gives no promise or fails
  with an error that is not retryable, blocks when the attempt never settles, and
  throws when the rejection is nullish. If all five attempts fail transiently it
  returns \<^verbatim>\<open>undefined\<close> after exactly five attempts and the four delays. So there are
  never more than 5 attempts; \<open>rpcCall\<close> returns (rather than throwing or blocking)
  whenever every attempt settles and no rejection is nullish, with \<^verbatim>\<open>undefined\<close>
  when every attempt is rejected, and a value it returns is one an attempt was
  fulfilled with. The hard timeout is that of \<open>fetchWithTimeout\<close>, which only the
  price API call goes through: that call never blocks.
\<close>

theorem rpcCall_bounded_retry:
  "(k < 5 \<and> (\<forall>j<k. failsTransiently (f j)) \<and> f k = Some (Fulfilled res)
      \<longrightarrow> rpcCall f = \<lparr>outcome = Returns res, attempts = k + 1, sleeps = backoff_delays k\<rparr>)
   \<and> (k < 5 \<and> (\<forall>j<k. failsTransiently (f j)) \<and> (f k = None \<or> failsForGood (f k))
      \<longrightarrow> rpcCall f = \<lparr>outcome = Returns None, attempts = k + 1, sleeps = backoff_delays k\<rparr>)
   \<and> (k < 5 \<and> (\<forall>j<k. failsTransiently (f j)) \<and> f k = Some NeverSettles
      \<longrightarrow> rpcCall f = \<lparr>outcome = Blocks, attempts = k + 1, sleeps = backoff_delays k\<rparr>)
   \<and> (k < 5 \<and> (\<forall>j<k. failsTransiently (f j)) \<and> f k = Some (RejectedWith Nullish)
      \<longrightarrow> rpcCall f = \<lparr>outcome = Throws TypeError, attempts = k + 1, sleeps = backoff_delays k\<rparr>)
   \<and> ((\<forall>j<5. failsTransiently (f j))
      \<longrightarrow> rpcCall f = \<lparr>outcome = Returns None, attempts = 5, sleeps = [125, 250, 500, 1000]\<rparr>)
   \<and> (k \<le> 4 \<longrightarrow> backoff_delays k = take k [125, 250, 500, 1000])
   \<and> attempts (rpcCall f) \<le> 5
   \<and> prefix (sleeps (rpcCall f)) [125, 250, 500, 1000]
   \<and> ((\<forall>i<5. f i \<noteq> Some NeverSettles \<and> f i \<noteq> Some (RejectedWith Nullish))
        \<longrightarrow> (\<exists>r. outcome (rpcCall f) = Returns r))
   \<and> ((\<forall>i<5. \<exists>r m em. f i = Some (RejectedWith (Thrown r m em)))
        \<longrightarrow> outcome (rpcCall f) = Returns None)
   \<and> (\<forall>v. outcome (rpcCall f) = Returns (Some v) \<longrightarrow> (\<exists>i<5. f i = Some (Fulfilled (Some v))))
   \<and> outcome (rpcCall (\<lambda>i. Some (fetchWithTimeout (Some 5000) (fetch i)))) \<noteq> Blocks"
proof -
  have k5: "k < 5 \<Longrightarrow> k < numRetries" by (simp add: numRetries_def)
  have e1: "k < 5 \<and> (\<forall>j<k. failsTransiently (f j)) \<and> f k = Some (Fulfilled res)
      \<longrightarrow> rpcCall f = \<lparr>outcome = Returns res, attempts = k + 1, sleeps = backoff_delays k\<rparr>"
    using rpcCall_ends_at(1) [of k f res] k5 by blast
  have e2: "k < 5 \<and> (\<forall>j<k. failsTransiently (f j)) \<and> (f k = None \<or> failsForGood (f k))
      \<longrightarrow> rpcCall f = \<lparr>outcome = Returns None, attempts = k + 1, sleeps = backoff_delays k\<rparr>"
    using rpcCall_ends_at(2) [of k f] k5 by blast
  have e3: "k < 5 \<and> (\<forall>j<k. failsTransiently (f j)) \<and> f k = Some NeverSettles
      \<longrightarrow> rpcCall f = \<lparr>outcome = Blocks, attempts = k + 1, sleeps = backoff_delays k\<rparr>"
    using rpcCall_ends_at(3) [of k f] k5 by blast
  have e4: "k < 5 \<and> (\<forall>j<k. failsTransiently (f j)) \<and> f k = Some (RejectedWith Nullish)
      \<longrightarrow> rpcCall f = \<lparr>outcome = Throws TypeError, attempts = k + 1, sleeps = backoff_delays k\<rparr>"
    using rpcCall_ends_at(4) [of k f] k5 by blast
  have e5: "(\<forall>j<5. failsTransiently (f j))
      \<longrightarrow> rpcCall f = \<lparr>outcome = Returns None, attempts = 5, sleeps = [125, 250, 500, 1000]\<rparr>"
    using rpcCall_exhausted [of f] by blast
  have e6: "k \<le> 4 \<longrightarrow> backoff_delays k = take k [125, 250, 500, 1000]"
  proof
    assume "k \<le> 4"
    then have "backoff_delays k = take k (backoff_delays 4)"
      by (simp add: backoff_delays_def take_map min_def)
    then show "backoff_delays k = take k [125, 250, 500, 1000]"
      by (simp add: backoff_delays_4)
  qed
  have a: "attempts (rpcCall f) \<le> 5"
    using rpcCall_loop_attempts [of 0 f initialDelay "[]"]
    by (simp add: rpcCall_def numRetries_def)
  obtain m where m: "m \<le> 4" and sl: "sleeps (rpcCall f) = map (\<lambda>k. 125 * 2 ^ k) [0..<m]"
    using rpcCall_loop_sleeps [of 0 f initialDelay "[]"]
    by (auto simp: rpcCall_def numRetries_def initialDelay_def expBackoff_def)
  have "prefix [0..<m] [0..<4]"
    using m by (metis le_iff_add prefixI upt_add_eq_append zero_le)
  then have "prefix (map (\<lambda>k. 125 * 2 ^ k) [0..<m]) (map (\<lambda>k. (125::nat) * 2 ^ k) [0..<4])"
    by (rule map_mono_prefix)
  moreover have "map (\<lambda>k. (125::nat) * 2 ^ k) [0..<4] = [125, 250, 500, 1000]"
    by (simp add: upt_rec)
  ultimately have b: "prefix (sleeps (rpcCall f)) [125, 250, 500, 1000]"
    using sl by simp
  have c: "(\<forall>i<5. f i \<noteq> Some NeverSettles \<and> f i \<noteq> Some (RejectedWith Nullish))
        \<longrightarrow> (\<exists>r. outcome (rpcCall f) = Returns r)"
    using rpcCall_loop_returns [of 0 f initialDelay "[]"]
    by (simp add: rpcCall_def numRetries_def)
  have d: "(\<forall>i<5. \<exists>r m em. f i = Some (RejectedWith (Thrown r m em)))
        \<longrightarrow> outcome (rpcCall f) = Returns None"
    using rpcCall_loop_all_rejected [of 0 f initialDelay "[]"]
    by (simp add: rpcCall_def numRetries_def)
  have e: "\<forall>v. outcome (rpcCall f) = Returns (Some v) \<longrightarrow> (\<exists>i<5. f i = Some (Fulfilled (Some v)))"
    using rpcCall_loop_value [of f 0 initialDelay "[]"]
    by (auto simp: rpcCall_def numRetries_def)
  have g: "outcome (rpcCall (\<lambda>i. Some (fetchWithTimeout (Some 5000) (fetch i)))) \<noteq> Blocks"
    unfolding rpcCall_def
    by (rule rpcCall_loop_no_block) (simp add: fetchWithTimeout_settles)
  from e1 e2 e3 e4 e5 e6 a b c d e g show ?thesis by (intro conjI)
qed

lemma failed_to_fetch_transient: "failsTransiently (failed_to_fetch i)"
  unfolding failed_to_fetch_def by code_simp

lemma failed_to_fetch_run:
  "rpcCall (failed_to_fetch :: nat \<Rightarrow> int option awaited option)
   = \<lparr>outcome = Returns None, attempts = 5, sleeps = [125, 250, 500, 1000]\<rparr>"
  by code_simp

lemma reverted_call_run:
  "rpcCall (\<lambda>i. Some (RejectedWith (Thrown (Some ''execution reverted'') None None))
              :: int option awaited option)
   = \<lparr>outcome = Returns None, attempts = 1, sleeps = []\<rparr>"
  by code_simp

theorem rpcCall_bounded_retry_witness:
  "rpcCall (failed_to_fetch :: nat \<Rightarrow> int option awaited option)
     = \<lparr>outcome = Returns None, attempts = 5, sleeps = [125, 250, 500, 1000]\<rparr>
   \<and> rpcCall retry_then_ok = \<lparr>outcome = Returns (Some 7), attempts = 3, sleeps = [125, 250]\<rparr>
   \<and> outcome (rpcCall (\<lambda>i. Some (fetchWithTimeout (Some 5000)
                                   (NoAnswer :: int fetch_behaviour)))) \<noteq> Blocks"
proof -
  note t1 = rpcCall_bounded_retry [where f = "failed_to_fetch :: nat \<Rightarrow> int option awaited option"
      and fetch = "\<lambda>i. NoAnswer :: int fetch_behaviour" and k = 0 and res = None]
  note t2 = rpcCall_bounded_retry [where f = retry_then_ok
      and fetch = "\<lambda>i. NoAnswer :: int fetch_behaviour" and k = 2 and res = "Some 7"]
  have a: "rpcCall (failed_to_fetch :: nat \<Rightarrow> int option awaited option)
     = \<lparr>outcome = Returns None, attempts = 5, sleeps = [125, 250, 500, 1000]\<rparr>"
    using t1 failed_to_fetch_transient [where ?'a = int] by blast
  have pre: "(2::nat) < 5 \<and> (\<forall>j<2. failsTransiently (retry_then_ok j))
      \<and> retry_then_ok 2 = Some (Fulfilled (Some 7))"
    using failed_to_fetch_transient [where ?'a = int] by (simp add: retry_then_ok_def)
  have d2: "backoff_delays 2 = [125, 250]"
    using t2 by simp
  from t2 pre have "rpcCall retry_then_ok
      = \<lparr>outcome = Returns (Some 7), attempts = 2 + 1, sleeps = backoff_delays 2\<rparr>"
    by blast
  then have b: "rpcCall retry_then_ok
      = \<lparr>outcome = Returns (Some 7), attempts = 3, sleeps = [125, 250]\<rparr>"
    using d2 by simp
  have c: "outcome (rpcCall (\<lambda>i. Some (fetchWithTimeout (Some 5000)
                                   (NoAnswer :: int fetch_behaviour)))) \<noteq> Blocks"
    using t1 by blast
  from a b c show ?thesis by (intro conjI)
qed

text \<open>
  The claim as stated fails for the chain reads: \<open>rpcCall\<close> has no timeout of its
  own, so a call whose promise never settles blocks it (and the node awaiting it) for ever.
\<close>

theorem rpcCall_blocks_on_unsettled_call:
  "outcome (rpcCall (\<lambda>i. Some NeverSettles :: int option awaited option)) = Blocks"
  by code_simp

lemma fetchWithTimeout_failed:
  "failedFetch b \<Longrightarrow> \<exists>r m em. fetchWithTimeout (Some 5000) b = RejectedWith (Thrown r m em)"
  by (cases b) (auto simp: failedFetch_def fetchWithTimeout_def abortError_def
      split: thrown.splits intro: thrown.exhaust)

text \<open>
  C4. When the chain read inside \<open>contractVals\<close> yields \<^verbatim>\<open>undefined\<close> after its
  retries, the node returns the value stored before. When the price fetch inside
  \<open>priceUSDPerCurrency\<close> fails (every attempt times out or rejects, or the body of the
  response cannot be read), the node returns a copy of the stored price object, whose
  three fields read as they did before. In these cases the node returns normally (it
  neither throws nor blocks), so nothing reaches the computations beside it.
\<close>

theorem failed_read_keeps_previous_value:
  "(dublr \<noteq> None \<and> wallet = Some (c # cs) \<and> outcome (rpcCall g) = Returns None
      \<longrightarrow> contractVals_node dublr wallet g stored = Returns stored)
   \<and> ((\<forall>i<5. failedFetch (fetch i))
      \<longrightarrow> priceUSDPerCurrency_node fetch prev = Returns (spread_price prev))
   \<and> (fetch 0 = Responds t (Response (RejectedWith (Thrown r m em))) \<and> t < 5000
      \<longrightarrow> priceUSDPerCurrency_node fetch prev = Returns (spread_price prev))
   \<and> p_eth (spread_price prev) = (case prev of None \<Rightarrow> None | Some p \<Rightarrow> p_eth p)
   \<and> p_matic (spread_price prev) = (case prev of None \<Rightarrow> None | Some p \<Rightarrow> p_matic p)
   \<and> p_dublr (spread_price prev) = (case prev of None \<Rightarrow> None | Some p \<Rightarrow> p_dublr p)"
proof -
  have a: "dublr \<noteq> None \<and> wallet = Some (c # cs) \<and> outcome (rpcCall g) = Returns None
      \<longrightarrow> contractVals_node dublr wallet g stored = Returns stored"
    by (simp add: contractVals_node_def)
  have b: "priceUSDPerCurrency_node fetch prev = Returns (spread_price prev)"
    if h: "\<forall>i<5. failedFetch (fetch i)"
  proof -
    have "outcome (rpcCall (\<lambda>i. Some (fetchWithTimeout (Some 5000) (fetch i)))) = Returns None"
      unfolding rpcCall_def
      by (rule rpcCall_loop_all_rejected) (simp add: h numRetries_def fetchWithTimeout_failed)
    then show ?thesis by (simp add: priceUSDPerCurrency_node_def)
  qed
  have c: "priceUSDPerCurrency_node fetch prev = Returns (spread_price prev)"
    if f0: "fetch 0 = Responds t (Response (RejectedWith (Thrown r m em)))" and t: "t < 5000"
  proof -
    have "outcome (rpcCall (\<lambda>i. Some (fetchWithTimeout (Some 5000) (fetch i))))
          = Returns (Some (Response (RejectedWith (Thrown r m em))))"
      unfolding rpcCall_def
      by (subst rpcCall_loop.simps) (simp add: f0 t fetchWithTimeout_def numRetries_def)
    then show ?thesis
      by (simp add: priceUSDPerCurrency_node_def)
  qed
  show ?thesis using a b c by (simp add: spread_price_def split: option.splits)
qed

theorem failed_read_keeps_previous_value_witness:
  "contractVals_node (Some (Contract ''0xD'')) (Some ''0xabc'')
      (failed_to_fetch :: nat \<Rightarrow> int option awaited option) (Some 42) = Returns (Some 42)
   \<and> priceUSDPerCurrency_node (\<lambda>i. NoAnswer)
        (Some \<lparr>p_eth = Some (1800::int), p_matic = Some 1, p_dublr = None\<rparr>)
      = Returns \<lparr>p_eth = Some 1800, p_matic = Some 1, p_dublr = None\<rparr>
   \<and> priceUSDPerCurrency_node
        (\<lambda>i. Responds 120 (Response (RejectedWith (Thrown None (Some ''Unexpected token'') None))))
        (Some \<lparr>p_eth = Some (1800::int), p_matic = Some 1, p_dublr = None\<rparr>)
      = Returns \<lparr>p_eth = Some 1800, p_matic = Some 1, p_dublr = None\<rparr>"
  using failed_read_keeps_previous_value [where dublr = "Some (Contract ''0xD'')"
      and wallet = "Some ''0xabc''" and c = "CHR ''0''" and cs = "''xabc''"
      and g = "failed_to_fetch :: nat \<Rightarrow> int option awaited option" and stored = "Some 42"
      and fetch = "\<lambda>i. NoAnswer"
      and prev = "Some \<lparr>p_eth = Some (1800::int), p_matic = Some 1, p_dublr = None\<rparr>"]
    failed_read_keeps_previous_value [where dublr = "Some (Contract ''0xD'')"
      and wallet = "Some ''0xabc''" and c = "CHR ''0''" and cs = "''xabc''"
      and g = "failed_to_fetch :: nat \<Rightarrow> int option awaited option" and stored = "Some 42"
      and fetch = "\<lambda>i. Responds 120 (Response (RejectedWith (Thrown None (Some ''Unexpected token'') None)))"
      and t = 120 and r = None and m = "Some ''Unexpected token''" and em = None
      and prev = "Some \<lparr>p_eth = Some (1800::int), p_matic = Some 1, p_dublr = None\<rparr>"]
  by (simp add: failed_to_fetch_run failedFetch_def spread_price_def)
section \<open>Theorems: wallet provider events\<close>

lemma writes_to_append: "writes_to k (xs @ ys) = writes_to k xs @ writes_to k ys"
  by (induction k xs rule: writes_to.induct) simp_all

lemma onDisconnectClick_effects:
  "\<exists>es st'. onDisconnectClick st = (es, st', Returns ())"
  by (simp add: onDisconnectClick_def disconnectFromProvider_def Let_def)

text \<open>
  C5 as amended. An \<^verbatim>\<open>accountsChanged\<close> event results in a write of the wallet node
  (the first account, or \<^verbatim>\<open>undefined\<close>). A \<^verbatim>\<open>chainChanged\<close> event results in no
  write at all: its only effect is the page reload. A \<^verbatim>\<open>disconnect\<close> event first
  writes \<^verbatim>\<open>undefined\<close> to both \<^verbatim>\<open>chainId\<close> and \<^verbatim>\<open>wallet\<close>, and every value it
  writes to either is \<^verbatim>\<open>undefined\<close>. A \<^verbatim>\<open>connect\<close> event results in a write of the
  wallet node once the provider has answered the accounts request.
\<close>

theorem wallet_events_to_writes:
  "writes_to ''wallet'' (effects_of (handle_event chainIdOf (AccountsChanged accounts) st)) \<noteq> []
   \<and> hd (writes_to ''wallet'' (effects_of (handle_event chainIdOf (AccountsChanged accounts) st)))
       = js_address (first_account accounts)
   \<and> effects_of (handle_event chainIdOf (ChainChanged chainId) st) = [Reload]
   \<and> hd (effects_of (handle_event chainIdOf Disconnect st))
       = DataflowSet [(''chainId'', JUndefined), (''wallet'', JUndefined)]
   \<and> set (writes_to ''chainId'' (effects_of (handle_event chainIdOf Disconnect st))) = {JUndefined}
   \<and> set (writes_to ''wallet'' (effects_of (handle_event chainIdOf Disconnect st))) = {JUndefined}
   \<and> (getAccounts st = Returns ac
        \<longrightarrow> writes_to ''wallet'' (effects_of (handle_event chainIdOf (Connect info) st))
            = [js_address (first_account ac)])"
proof -
  have acc: "writes_to ''wallet'' (effects_of (onAccountsChanged accounts st)) \<noteq> []
     \<and> hd (writes_to ''wallet'' (effects_of (onAccountsChanged accounts st)))
        = js_address (first_account accounts)"
  proof (cases accounts)
    case None
    then show ?thesis
      by (simp add: onAccountsChanged_def effects_of_def first_account_def js_address_def
          split: prod.splits)
  next
    case (Some a)
    then show ?thesis
      by (simp add: onAccountsChanged_def getWallet_def effects_of_def Let_def
          split: prod.splits)
  qed
  have chain: "effects_of (onChainChanged chainIdOf chainId st) = [Reload]"
    by (simp add: onChainChanged_def effects_of_def)
  have disc: "hd (effects_of (onDisconnect st))
       = DataflowSet [(''chainId'', JUndefined), (''wallet'', JUndefined)]
     \<and> set (writes_to ''chainId'' (effects_of (onDisconnect st))) = {JUndefined}
     \<and> set (writes_to ''wallet'' (effects_of (onDisconnect st))) = {JUndefined}"
    by (auto simp: onDisconnect_def onDisconnectClick_def disconnectFromProvider_def
        effects_of_def Let_def writes_to_append split: option.splits)
  have conn: "getAccounts st = Returns ac
      \<longrightarrow> writes_to ''wallet'' (effects_of (onConnect chainIdOf info st))
          = [js_address (first_account ac)]"
    by (auto simp: onConnect_def getWallet_def effects_of_def Let_def split: option.splits)
  show ?thesis using acc chain disc conn by (simp add: handle_event_def)
qed

theorem wallet_events_to_writes_witness:
  "writes_to ''wallet''
     (effects_of (handle_event hex_chain_id (AccountsChanged (Some [''0xB0b''])) connected_state))
     \<noteq> []
   \<and> effects_of (handle_event hex_chain_id (ChainChanged ''0x1'') connected_state) = [Reload]
   \<and> writes_to ''wallet''
       (effects_of (handle_event hex_chain_id (Connect (Some ''0x89'')) connected_state))
      = [JStr ''0xAbC1230000000000000000000000000000000001'']"
  using wallet_events_to_writes [where chainIdOf = hex_chain_id and accounts = "Some [''0xB0b'']"
      and st = connected_state and chainId = "''0x1''" and info = "Some ''0x89''"
      and ac = "Some [''0xAbC1230000000000000000000000000000000001'']"]
  by (simp add: getAccounts_def connected_state_def metamask_def first_account_def
      js_address_def)

text \<open>
  The claim as stated fails at \<^verbatim>\<open>chainChanged\<close>: on a change to chain \<^verbatim>\<open>0x1\<close> the
  handler writes nothing to the \<^verbatim>\<open>chainId\<close> node.
\<close>

theorem chain_changed_writes_no_chainId:
  "writes_to ''chainId''
     (effects_of (handle_event hex_chain_id (ChainChanged ''0x1'') connected_state)) = []"
  by (simp add: handle_event_def onChainChanged_def effects_of_def)

text \<open>
  The \<^verbatim>\<open>connect\<close> handler stops at line 117 with a ReferenceError: its write of
  \<^verbatim>\<open>chainId\<close> on line 119 is never made.
\<close>

lemma connect_writes_no_chainId:
  "writes_to ''chainId''
     (effects_of (handle_event hex_chain_id (Connect (Some ''0x89'')) connected_state)) = []
   \<and> ending_of (handle_event hex_chain_id (Connect (Some ''0x89'')) connected_state)
       = Throws ReferenceError"
  by (simp add: handle_event_def onConnect_def getWallet_def getAccounts_def effects_of_def
      ending_of_def connected_state_def metamask_def hex_chain_id_def Let_def)

section \<open>Theorems: the simulation of buy()\<close>

lemma clamp_le: "dublrToEthRoundUpClamped p a m \<le> m"
  by (simp add: dublrToEthRoundUpClamped_def Let_def)

lemma round_up_bounds:
  assumes "0 \<le> x"
  shows "x \<le> bn_quot (x + (1000000000 - 1)) 1000000000 * 1000000000
         \<and> bn_quot (x + (1000000000 - 1)) 1000000000 * 1000000000 < x + 1000000000"
proof -
  define y where "y = x + 999999999"
  have q: "bn_quot (x + (1000000000 - 1)) 1000000000 = y div 1000000000"
    using assms by (simp add: bn_quot_nonneg y_def)
  have "y div 1000000000 * 1000000000 + y mod 1000000000 = y"
    by (rule div_mult_mod_eq)
  moreover have "0 \<le> y mod 1000000000" and "y mod 1000000000 < 1000000000"
    by simp_all
  ultimately have "x \<le> y div 1000000000 * 1000000000
      \<and> y div 1000000000 * 1000000000 < x + 1000000000"
    unfolding y_def by linarith
  then show ?thesis using q by simp
qed

lemma buy_step_conserves:
  assumes "funds_conserved B st"
  shows "buy_step cv st = Continue st' \<or> buy_step cv st = Break st' \<Longrightarrow> funds_conserved B st'"
proof (cases "orderbookCopy st")
  case Nil
  then show "buy_step cv st = Continue st' \<or> buy_step cv st = Break st' \<Longrightarrow> funds_conserved B st'"
    by (simp add: buy_step_def)
next
  case (Cons sellOrder rest)
  assume h: "buy_step cv st = Continue st' \<or> buy_step cv st = Break st'"
  have c: "\<And>a. dublrToEthRoundUpClamped (priceNWCPerDUBLR_x1e9 sellOrder) a
             (buyOrderRemainingNWCWEI st) \<le> buyOrderRemainingNWCWEI st"
    by (rule clamp_le)
  show "funds_conserved B st'"
    using h assms Cons c
    by (auto simp: buy_step_def funds_conserved_def Let_def split: if_splits sum.splits)
qed

lemma buy_states_conserve:
  "funds_conserved B st \<Longrightarrow> s \<in> set (buy_states cv ab st) \<Longrightarrow> funds_conserved B s"
proof (induction cv ab st rule: buy_states.induct)
  case (1 cv allowBuying st)
  show ?case
  proof (cases "loop_condition cv allowBuying st")
    case False
    then show ?thesis using "1.prems" by simp
  next
    case True
    show ?thesis
    proof (cases "buy_step cv st")
      case (Continue st')
      then have "funds_conserved B st'" using buy_step_conserves [OF "1.prems"(1)] by blast
      then show ?thesis using "1.IH" [OF True Continue] "1.prems" True Continue by auto
    next
      case (Break st')
      then have "funds_conserved B st'" using buy_step_conserves [OF "1.prems"(1)] by blast
      then show ?thesis using "1.prems" True Break by auto
    next
      case (Raise e)
      then show ?thesis using "1.prems" True by auto
    qed
  qed
qed

lemma buy_loop_in_states:
  "buy_loop cv ab st = Inr st' \<Longrightarrow> st' \<in> set (buy_states cv ab st)"
proof (induction cv ab st rule: buy_loop.induct)
  case (1 cv allowBuying st)
  show ?case
  proof (cases "loop_condition cv allowBuying st")
    case False
    then show ?thesis using "1.prems" by simp
  next
    case True
    show ?thesis
    proof (cases "buy_step cv st")
      case (Continue s)
      then show ?thesis using "1.IH" [OF True Continue] "1.prems" True by simp
    next
      case (Break s)
      then show ?thesis using "1.prems" True by simp
    next
      case (Raise e)
      then show ?thesis using "1.prems" True by simp
    qed
  qed
qed

lemma mint_step_conserves:
  "funds_conserved B st \<Longrightarrow> mint_step cv am st = Inr st' \<Longrightarrow> funds_conserved B st'"
  using clamp_le [of "mintPriceNWCPerDUBLR_x1e9 cv" _ "buyOrderRemainingNWCWEI st"]
  by (auto simp: mint_step_def funds_conserved_def Let_def split: if_splits sum.splits)

lemma sim_start_conserved: "0 \<le> B \<Longrightarrow> funds_conserved B (sim_start ob B)"
  by (simp add: funds_conserved_def sim_start_def)

lemma sim_states_conserve:
  assumes "0 \<le> B" and "s \<in> set (sim_states cv ab am ob B)"
  shows "funds_conserved B s"
proof (cases "s \<in> set (buy_states cv ab (sim_start ob B))")
  case True
  then show ?thesis using buy_states_conserve [OF sim_start_conserved [OF assms(1)]] by blast
next
  case False
  with assms(2) have "\<exists>st1. buy_loop cv ab (sim_start ob B) = Inr st1 \<and> mint_step cv am st1 = Inr s"
    unfolding sim_states_def
    by (cases "buy_loop cv ab (sim_start ob B)")
       (auto simp del: buy_loop.simps buy_states.simps split: sum.splits)
  then obtain st1 where l: "buy_loop cv ab (sim_start ob B) = Inr st1"
    and m: "mint_step cv am st1 = Inr s" by blast
  have "funds_conserved B st1"
    using buy_states_conserve [OF sim_start_conserved [OF assms(1)] buy_loop_in_states [OF l]] .
  then show ?thesis using mint_step_conserves m by blast
qed

lemma node_result_final:
  assumes "amountBoughtEstDUBLRWEI_node (Some cv) (Some B) (Some ab) (Some am) (Some ob) (Some slip)
           = Inr (Some r)"
  shows "r_final r \<in> set (sim_states cv ab am ob B)
         \<and> r_totalToSpendNWCWEI r = B - buyOrderRemainingNWCWEI (r_final r)
         \<and> r_boughtDUBLRWEI r = totBoughtOrMintedDUBLRWEI (r_final r)"
  using assms
  by (auto simp: amountBoughtEstDUBLRWEI_node_def sim_states_def Let_def
      simp del: buy_loop.simps buy_states.simps split: if_splits sum.splits)

lemma clamp_exact:
  assumes "0 \<le> amount * price"
  shows "dublrToEthRoundUpClamped price amount remaining
         = min ((amount * price + 999999999) div 1000000000) remaining"
proof -
  have "bn_quot (amount * price + (1000000000 - 1)) 1000000000
        = (amount * price + 999999999) div 1000000000"
    using assms by (simp add: bn_quot_nonneg)
  then show ?thesis by (simp add: dublrToEthRoundUpClamped_def Let_def min_def)
qed

lemma clamp_nothing: "0 \<le> remaining \<Longrightarrow> dublrToEthRoundUpClamped price 0 remaining = 0"
  by (simp add: dublrToEthRoundUpClamped_def bn_quot_nonneg)

lemma buy_step_charge:
  assumes "loop_condition cv ab st" and "buy_step cv st = Continue st'"
  shows "totSpentNWCWEI st' - totSpentNWCWEI st
           = buyOrderRemainingNWCWEI st - buyOrderRemainingNWCWEI st'
         \<and> buyOrderRemainingNWCWEI st - buyOrderRemainingNWCWEI st'
           = dublrToEthRoundUpClamped (priceNWCPerDUBLR_x1e9 (hd (orderbookCopy st)))
               (totBoughtOrMintedDUBLRWEI st' - totBoughtOrMintedDUBLRWEI st)
               (buyOrderRemainingNWCWEI st)"
proof -
  from assms(1) obtain sellOrder rest where ob: "orderbookCopy st = sellOrder # rest"
    and R: "0 \<le> buyOrderRemainingNWCWEI st"
    by (cases "orderbookCopy st") (auto simp: loop_condition_def)
  note z = clamp_nothing [OF R, of "priceNWCPerDUBLR_x1e9 sellOrder"]
  show ?thesis
    using assms(2) ob z
    by (auto simp: buy_step_def Let_def split: if_splits sum.splits)
qed

lemma buy_step_break_no_charge:
  "buy_step cv st = Break st'
   \<Longrightarrow> totSpentNWCWEI st' = totSpentNWCWEI st
       \<and> buyOrderRemainingNWCWEI st' = buyOrderRemainingNWCWEI st
       \<and> totBoughtOrMintedDUBLRWEI st' = totBoughtOrMintedDUBLRWEI st"
  by (cases "orderbookCopy st")
     (auto simp: buy_step_def Let_def split: if_splits sum.splits)

lemma mint_step_charge:
  assumes "0 \<le> buyOrderRemainingNWCWEI st" and "mint_step cv am st = Inr st'"
  shows "totSpentNWCWEI st' - totSpentNWCWEI st
           = buyOrderRemainingNWCWEI st - buyOrderRemainingNWCWEI st'
         \<and> buyOrderRemainingNWCWEI st - buyOrderRemainingNWCWEI st'
           = dublrToEthRoundUpClamped (mintPriceNWCPerDUBLR_x1e9 cv)
               (totBoughtOrMintedDUBLRWEI st' - totBoughtOrMintedDUBLRWEI st)
               (buyOrderRemainingNWCWEI st)"
  using assms(2) clamp_nothing [OF assms(1), of "mintPriceNWCPerDUBLR_x1e9 cv"]
  by (auto simp: mint_step_def Let_def split: if_splits sum.splits)

lemma node_not_undefined:
  "ab \<or> am \<Longrightarrow>
   amountBoughtEstDUBLRWEI_node (Some cv) (Some B) (Some ab) (Some am) (Some ob) (Some slip)
   \<noteq> Inr None"
  by (auto simp: amountBoughtEstDUBLRWEI_node_def Let_def
      simp del: buy_loop.simps buy_states.simps split: sum.splits)

text \<open>
  C9. For every orderbook, contract state and positive buy amount, every state of the
  simulated buy/mint loop (the state it starts in, the state after each pass through
  the loop, and the state after the minting step) has
  \<open>totSpentNWCWEI + buyOrderRemainingNWCWEI\<close> equal to the buy amount and
  \<open>buyOrderRemainingNWCWEI\<close> not negative; the "Total to spend" the node shows is
  the amount spent in its final state and never exceeds the buy amount, and the node
  does give a result when buying or minting is allowed and nothing throws. What a pass
  through the loop, and the minting step, adds to the amount spent is what it takes
  from the remaining funds, and that charge is \<open>dublrToEthRoundUpClamped\<close> of the
  price, the tokens bought in the step and the funds remaining before it. That charge
  never exceeds the remaining funds, and for a non-negative product of amount and
  price it is the smaller of the remaining funds and the product divided by \<open>10^9\<close>
  rounded up, which exceeds the exact quotient by less than one unit.
\<close>

theorem buy_simulation_conserves_funds:
  assumes "0 < buyAmount"
  shows "(\<forall>st \<in> set (sim_states cv ab am ob buyAmount).
            totSpentNWCWEI st + buyOrderRemainingNWCWEI st = buyAmount
            \<and> 0 \<le> buyOrderRemainingNWCWEI st)
         \<and> sim_start ob buyAmount \<in> set (sim_states cv ab am ob buyAmount)
         \<and> (\<forall>r. amountBoughtEstDUBLRWEI_node (Some cv) (Some buyAmount) (Some ab) (Some am)
                    (Some ob) (Some slip) = Inr (Some r)
                \<longrightarrow> r_final r \<in> set (sim_states cv ab am ob buyAmount)
                    \<and> r_totalToSpendNWCWEI r = totSpentNWCWEI (r_final r)
                    \<and> r_totalToSpendNWCWEI r \<le> buyAmount)
         \<and> (ab \<or> am
              \<longrightarrow> amountBoughtEstDUBLRWEI_node (Some cv) (Some buyAmount) (Some ab) (Some am)
                    (Some ob) (Some slip) \<noteq> Inr None)
         \<and> (\<forall>st st'. loop_condition cv ab st \<and> buy_step cv st = Continue st'
                \<longrightarrow> totSpentNWCWEI st' - totSpentNWCWEI st
                      = buyOrderRemainingNWCWEI st - buyOrderRemainingNWCWEI st'
                    \<and> buyOrderRemainingNWCWEI st - buyOrderRemainingNWCWEI st'
                      = dublrToEthRoundUpClamped (priceNWCPerDUBLR_x1e9 (hd (orderbookCopy st)))
                          (totBoughtOrMintedDUBLRWEI st' - totBoughtOrMintedDUBLRWEI st)
                          (buyOrderRemainingNWCWEI st))
         \<and> (\<forall>st st'. buy_step cv st = Break st'
                \<longrightarrow> totSpentNWCWEI st' = totSpentNWCWEI st
                    \<and> buyOrderRemainingNWCWEI st' = buyOrderRemainingNWCWEI st)
         \<and> (\<forall>st st'. 0 \<le> buyOrderRemainingNWCWEI st \<and> mint_step cv am st = Inr st'
                \<longrightarrow> totSpentNWCWEI st' - totSpentNWCWEI st
                      = buyOrderRemainingNWCWEI st - buyOrderRemainingNWCWEI st'
                    \<and> buyOrderRemainingNWCWEI st - buyOrderRemainingNWCWEI st'
                      = dublrToEthRoundUpClamped (mintPriceNWCPerDUBLR_x1e9 cv)
                          (totBoughtOrMintedDUBLRWEI st' - totBoughtOrMintedDUBLRWEI st)
                          (buyOrderRemainingNWCWEI st))
         \<and> dublrToEthRoundUpClamped price amount remaining \<le> remaining
         \<and> (0 \<le> amount * price
              \<longrightarrow> dublrToEthRoundUpClamped price amount remaining
                    = min ((amount * price + 999999999) div 1000000000) remaining
                  \<and> amount * price \<le> (amount * price + 999999999) div 1000000000 * 1000000000
                  \<and> (amount * price + 999999999) div 1000000000 * 1000000000
                    < amount * price + 1000000000)"
proof -
  have B: "0 \<le> buyAmount" using assms by simp
  have a: "\<forall>st \<in> set (sim_states cv ab am ob buyAmount).
            totSpentNWCWEI st + buyOrderRemainingNWCWEI st = buyAmount
            \<and> 0 \<le> buyOrderRemainingNWCWEI st"
    using sim_states_conserve [OF B] by (auto simp: funds_conserved_def)
  have b: "sim_start ob buyAmount \<in> set (sim_states cv ab am ob buyAmount)"
    by (subst sim_states_def, subst buy_states.simps) simp
  have c: "r_final r \<in> set (sim_states cv ab am ob buyAmount)
           \<and> r_totalToSpendNWCWEI r = totSpentNWCWEI (r_final r)
           \<and> r_totalToSpendNWCWEI r \<le> buyAmount"
    if h: "amountBoughtEstDUBLRWEI_node (Some cv) (Some buyAmount) (Some ab) (Some am)
             (Some ob) (Some slip) = Inr (Some r)" for r
  proof -
    from node_result_final [OF h] have f: "r_final r \<in> set (sim_states cv ab am ob buyAmount)"
      and t: "r_totalToSpendNWCWEI r = buyAmount - buyOrderRemainingNWCWEI (r_final r)"
      by auto
    from a f have "totSpentNWCWEI (r_final r) + buyOrderRemainingNWCWEI (r_final r) = buyAmount"
      and "0 \<le> buyOrderRemainingNWCWEI (r_final r)" by auto
    then show ?thesis using f t by simp
  qed
  have c': "\<forall>r. amountBoughtEstDUBLRWEI_node (Some cv) (Some buyAmount) (Some ab) (Some am)
                    (Some ob) (Some slip) = Inr (Some r)
                \<longrightarrow> r_final r \<in> set (sim_states cv ab am ob buyAmount)
                    \<and> r_totalToSpendNWCWEI r = totSpentNWCWEI (r_final r)
                    \<and> r_totalToSpendNWCWEI r \<le> buyAmount"
    using c by blast
  have d: "ab \<or> am
      \<longrightarrow> amountBoughtEstDUBLRWEI_node (Some cv) (Some buyAmount) (Some ab) (Some am)
            (Some ob) (Some slip) \<noteq> Inr None"
    using node_not_undefined by blast
  have e: "\<forall>st st'. loop_condition cv ab st \<and> buy_step cv st = Continue st'
                \<longrightarrow> totSpentNWCWEI st' - totSpentNWCWEI st
                      = buyOrderRemainingNWCWEI st - buyOrderRemainingNWCWEI st'
                    \<and> buyOrderRemainingNWCWEI st - buyOrderRemainingNWCWEI st'
                      = dublrToEthRoundUpClamped (priceNWCPerDUBLR_x1e9 (hd (orderbookCopy st)))
                          (totBoughtOrMintedDUBLRWEI st' - totBoughtOrMintedDUBLRWEI st)
                          (buyOrderRemainingNWCWEI st)"
    using buy_step_charge by blast
  have f: "\<forall>st st'. buy_step cv st = Break st'
                \<longrightarrow> totSpentNWCWEI st' = totSpentNWCWEI st
                    \<and> buyOrderRemainingNWCWEI st' = buyOrderRemainingNWCWEI st"
    using buy_step_break_no_charge by blast
  have g: "\<forall>st st'. 0 \<le> buyOrderRemainingNWCWEI st \<and> mint_step cv am st = Inr st'
                \<longrightarrow> totSpentNWCWEI st' - totSpentNWCWEI st
                      = buyOrderRemainingNWCWEI st - buyOrderRemainingNWCWEI st'
                    \<and> buyOrderRemainingNWCWEI st - buyOrderRemainingNWCWEI st'
                      = dublrToEthRoundUpClamped (mintPriceNWCPerDUBLR_x1e9 cv)
                          (totBoughtOrMintedDUBLRWEI st' - totBoughtOrMintedDUBLRWEI st)
                          (buyOrderRemainingNWCWEI st)"
    using mint_step_charge by blast
  have h: "dublrToEthRoundUpClamped price amount remaining \<le> remaining"
    by (rule clamp_le)
  have i: "0 \<le> amount * price
              \<longrightarrow> dublrToEthRoundUpClamped price amount remaining
                    = min ((amount * price + 999999999) div 1000000000) remaining
                  \<and> amount * price \<le> (amount * price + 999999999) div 1000000000 * 1000000000
                  \<and> (amount * price + 999999999) div 1000000000 * 1000000000
                    < amount * price + 1000000000"
  proof
    assume p: "0 \<le> amount * price"
    have q: "bn_quot (amount * price + (1000000000 - 1)) 1000000000
          = (amount * price + 999999999) div 1000000000"
      using p by (simp add: bn_quot_nonneg)
    show "dublrToEthRoundUpClamped price amount remaining
                    = min ((amount * price + 999999999) div 1000000000) remaining
                  \<and> amount * price \<le> (amount * price + 999999999) div 1000000000 * 1000000000
                  \<and> (amount * price + 999999999) div 1000000000 * 1000000000
                    < amount * price + 1000000000"
      using clamp_exact [OF p] round_up_bounds [OF p] unfolding q by blast
  qed
  from a b c' d e f g h i show ?thesis by (intro conjI)
qed

lemma example_simulation:
  "map buyOrderRemainingNWCWEI (sim_states example_contract_vals True True example_orderbook 1001)
     = [1001, 551, 1, 1, 1]
   \<and> map totSpentNWCWEI (sim_states example_contract_vals True True example_orderbook 1001)
     = [0, 450, 1000, 1000, 1000]
   \<and> map totBoughtOrMintedDUBLRWEI
       (sim_states example_contract_vals True True example_orderbook 1001)
     = [0, 300, 575, 575, 575]"
  by code_simp

theorem buy_simulation_conserves_funds_witness:
  "0 < (1001::int)
   \<and> totSpentNWCWEI (last (sim_states example_contract_vals True True example_orderbook 1001))
       + buyOrderRemainingNWCWEI
           (last (sim_states example_contract_vals True True example_orderbook 1001)) = 1001
   \<and> 0 \<le> buyOrderRemainingNWCWEI
           (last (sim_states example_contract_vals True True example_orderbook 1001))
   \<and> dublrToEthRoundUpClamped 1999999999 275 551 = 550
   \<and> amountBoughtEstDUBLRWEI_node (Some example_contract_vals) (Some 1001) (Some True)
        (Some True) (Some example_orderbook) (Some 990000000) \<noteq> Inr None"
proof -
  have pos: "0 < (1001::int)" by simp
  note t = buy_simulation_conserves_funds [where buyAmount = 1001
      and cv = example_contract_vals and ab = True and am = True and ob = example_orderbook
      and slip = 990000000 and price = 1999999999 and amount = 275 and remaining = 551,
      OF pos]
  have "sim_states example_contract_vals True True example_orderbook 1001 \<noteq> []"
    using t by auto
  then have l: "last (sim_states example_contract_vals True True example_orderbook 1001)
      \<in> set (sim_states example_contract_vals True True example_orderbook 1001)"
    by simp
  have a: "totSpentNWCWEI (last (sim_states example_contract_vals True True example_orderbook 1001))
       + buyOrderRemainingNWCWEI
           (last (sim_states example_contract_vals True True example_orderbook 1001)) = 1001
     \<and> 0 \<le> buyOrderRemainingNWCWEI
           (last (sim_states example_contract_vals True True example_orderbook 1001))"
    using t l by simp
  have "(0::int) \<le> 275 * 1999999999" by simp
  with t have "dublrToEthRoundUpClamped 1999999999 275 551
      = min ((275 * 1999999999 + 999999999) div 1000000000) 551"
    by blast
  then have b: "dublrToEthRoundUpClamped 1999999999 275 551 = 550" by simp
  have c: "amountBoughtEstDUBLRWEI_node (Some example_contract_vals) (Some 1001) (Some True)
        (Some True) (Some example_orderbook) (Some 990000000) \<noteq> Inr None"
    using t by simp
  from a b c show ?thesis by simp
qed
section \<open>Theorems: the dataflow core as specified\<close>

lemma write_field_equal: "cur_value (st k) = v \<Longrightarrow> write_field st (k, v) = st"
  by (simp add: write_field_def)

lemma write_field_other: "fst kv \<noteq> k \<Longrightarrow> write_field st kv k = st k"
  by (simp add: write_field_def)

lemma foldl_write_other:
  "k \<notin> fst ` set batch \<Longrightarrow> foldl write_field st batch k = st k"
  by (induction batch arbitrary: st) (auto simp: write_field_other)

lemma foldl_write_equal:
  assumes "distinct (map fst batch)" and "(k, v) \<in> set batch" and "cur_value (st k) = v"
  shows "foldl write_field st batch k = st k"
proof -
  from assms(2) obtain xs ys where b: "batch = xs @ (k, v) # ys"
    by (auto simp: in_set_conv_decomp)
  with assms(1) have kx: "k \<notin> fst ` set xs" and ky: "k \<notin> fst ` set ys"
    by auto
  have x: "foldl write_field st xs k = st k" using kx by (rule foldl_write_other)
  then have "write_field (foldl write_field st xs) (k, v) = foldl write_field st xs"
    using assms(3) by (simp add: write_field_equal)
  then show ?thesis using b x ky by (simp add: foldl_write_other)
qed

lemma write_batch_equal_single:
  "cur_value (st k) = v \<Longrightarrow> write_batch st [(k, v)] = (st, [])"
  by (simp add: write_batch_def write_field_equal)

lemma write_batch_equal_field:
  assumes "distinct (map fst batch)" and "(k, v) \<in> set batch" and "cur_value (st k) = v"
  shows "fst (write_batch st batch) k = st k \<and> k \<notin> set (snd (write_batch st batch))"
  using foldl_write_equal [of batch k v st] assms by (simp add: write_batch_def Let_def)

lemma dependents_nil: "dependents g [] = []"
  by (simp add: dependents_def list_ex_iff)

lemma closure_iter_nil: "closure_iter n g [] = []"
  by (induction n) (simp_all add: dependents_nil)

lemma affected_nil: "affected g [] = []"
  by (simp add: affected_def dependents_nil closure_iter_nil)

lemma closure_iter_mono: "set acc \<subseteq> set (closure_iter n g acc)"
proof (induction n arbitrary: acc)
  case 0
  show ?case by simp
next
  case (Suc n)
  have "set acc \<subseteq> set (remdups (acc @ dependents g acc))" by auto
  also have "\<dots> \<subseteq> set (closure_iter n g (remdups (acc @ dependents g acc)))" by (rule Suc.IH)
  finally show ?case by simp
qed

lemma dependent_affected:
  assumes "(d, ds) \<in> set g" and "k \<in> set ds" and "k \<in> set changed"
  shows "d \<in> set (affected g changed)"
proof -
  have "d \<in> set (dependents g changed)"
    using assms by (force simp: dependents_def list_ex_iff)
  then show ?thesis
    using closure_iter_mono [of "remdups (dependents g changed)" "length g" g]
    by (auto simp: affected_def)
qed

lemma clear_then_set:
  assumes "cur_value (st k) = v" and "v \<noteq> JUndefined"
  shows "write_queue st [[(k, JUndefined)], [(k, v)]]
         = (st(k := \<lparr>cur_value = v, generation = generation (st k) + 2\<rparr>), [k, k])"
  using assms by (simp add: write_queue_def write_batch_def write_field_def Let_def)

lemma updateListPriceUI_calls:
  "list_all isWhite s \<Longrightarrow>
   updateListPriceUI lib (Some s) (Some cv)
   = [[(''listPrice_out'', JUndefined), (''listPrice_in'', JUndefined)],
      [(''listPrice_out'', JStr (formatPrice lib (Some (mintPriceNWCPerDUBLR_x1e9 cv)))),
       (''listPrice_in'', JStr (formatPrice lib (Some (mintPriceNWCPerDUBLR_x1e9 cv))))]]"
  by (simp add: updateListPriceUI_def Let_def)

lemma clear_then_set_listPrice:
  assumes "cur_value (st ''listPrice_out'') = JStr p"
  shows "generation (fst (write_queue st
            [[(''listPrice_out'', JUndefined), (''listPrice_in'', JUndefined)],
             [(''listPrice_out'', JStr p), (''listPrice_in'', JStr p)]]) ''listPrice_out'')
         = generation (st ''listPrice_out'') + 2
       \<and> ''listPrice_out'' \<in> set (snd (write_queue st
            [[(''listPrice_out'', JUndefined), (''listPrice_in'', JUndefined)],
             [(''listPrice_out'', JStr p), (''listPrice_in'', JStr p)]]))"
  using assms by (simp add: write_queue_def write_batch_def write_field_def Let_def)

text \<open>
  C2. Writing to a node a value equal to the one it holds leaves the store as it is
  (the node's generation is not incremented) and changes no name, so the closure of
  affected nodes is empty and no dependent is recomputed; within a batch, a field whose
  value is equal keeps its generation and is not among the changed names. To force
  dependents of a node holding \<open>v\<close> to run again, \<^verbatim>\<open>undefined\<close> is written and
  then \<open>v\<close>: the generation goes up by two and every node depending on it is in the
  affected closure. \<open>updateListPriceUI\<close> issues exactly this pair of writes, and on a
  store that already holds the formatted price they raise the generation of
  \<^verbatim>\<open>listPrice_out\<close> by two.
\<close>

theorem equal_value_write_is_noop:
  "(cur_value (st k) = v
      \<longrightarrow> write_batch st [(k, v)] = (st, []) \<and> affected g (snd (write_batch st [(k, v)])) = [])
   \<and> (distinct (map fst batch) \<and> (k, v) \<in> set batch \<and> cur_value (st k) = v
      \<longrightarrow> generation (fst (write_batch st batch) k) = generation (st k)
          \<and> k \<notin> set (snd (write_batch st batch)))
   \<and> (cur_value (st k) = v \<and> v \<noteq> JUndefined
      \<longrightarrow> generation (fst (write_queue st [[(k, JUndefined)], [(k, v)]]) k) = generation (st k) + 2
          \<and> cur_value (fst (write_queue st [[(k, JUndefined)], [(k, v)]]) k) = v
          \<and> (\<forall>d ds. (d, ds) \<in> set g \<and> k \<in> set ds
                \<longrightarrow> d \<in> set (affected g (snd (write_queue st [[(k, JUndefined)], [(k, v)]])))))
   \<and> (list_all isWhite s
      \<longrightarrow> updateListPriceUI lib (Some s) (Some cv)
          = [[(''listPrice_out'', JUndefined), (''listPrice_in'', JUndefined)],
             [(''listPrice_out'', JStr (formatPrice lib (Some (mintPriceNWCPerDUBLR_x1e9 cv)))),
              (''listPrice_in'', JStr (formatPrice lib (Some (mintPriceNWCPerDUBLR_x1e9 cv))))]])
   \<and> (list_all isWhite s
       \<and> cur_value (st ''listPrice_out'') = JStr (formatPrice lib (Some (mintPriceNWCPerDUBLR_x1e9 cv)))
      \<longrightarrow> generation (fst (write_queue st (updateListPriceUI lib (Some s) (Some cv))) ''listPrice_out'')
          = generation (st ''listPrice_out'') + 2
          \<and> ''listPrice_out'' \<in> set (snd (write_queue st (updateListPriceUI lib (Some s) (Some cv)))))"
proof -
  have a: "cur_value (st k) = v
      \<longrightarrow> write_batch st [(k, v)] = (st, []) \<and> affected g (snd (write_batch st [(k, v)])) = []"
    by (simp add: write_batch_equal_single affected_nil)
  have b: "distinct (map fst batch) \<and> (k, v) \<in> set batch \<and> cur_value (st k) = v
      \<longrightarrow> generation (fst (write_batch st batch) k) = generation (st k)
          \<and> k \<notin> set (snd (write_batch st batch))"
    using write_batch_equal_field [of batch k v st] by auto
  have c: "cur_value (st k) = v \<and> v \<noteq> JUndefined
      \<longrightarrow> generation (fst (write_queue st [[(k, JUndefined)], [(k, v)]]) k) = generation (st k) + 2
          \<and> cur_value (fst (write_queue st [[(k, JUndefined)], [(k, v)]]) k) = v
          \<and> (\<forall>d ds. (d, ds) \<in> set g \<and> k \<in> set ds
                \<longrightarrow> d \<in> set (affected g (snd (write_queue st [[(k, JUndefined)], [(k, v)]]))))"
    by (auto simp: clear_then_set intro: dependent_affected)
  have d: "list_all isWhite s
      \<longrightarrow> updateListPriceUI lib (Some s) (Some cv)
          = [[(''listPrice_out'', JUndefined), (''listPrice_in'', JUndefined)],
             [(''listPrice_out'', JStr (formatPrice lib (Some (mintPriceNWCPerDUBLR_x1e9 cv)))),
              (''listPrice_in'', JStr (formatPrice lib (Some (mintPriceNWCPerDUBLR_x1e9 cv))))]]"
    by (simp add: updateListPriceUI_calls)
  have e: "list_all isWhite s
       \<and> cur_value (st ''listPrice_out'') = JStr (formatPrice lib (Some (mintPriceNWCPerDUBLR_x1e9 cv)))
      \<longrightarrow> generation (fst (write_queue st (updateListPriceUI lib (Some s) (Some cv))) ''listPrice_out'')
          = generation (st ''listPrice_out'') + 2
          \<and> ''listPrice_out'' \<in> set (snd (write_queue st (updateListPriceUI lib (Some s) (Some cv))))"
  proof (intro impI, elim conjE)
    assume w: "list_all isWhite s"
      and v: "cur_value (st ''listPrice_out'')
              = JStr (formatPrice lib (Some (mintPriceNWCPerDUBLR_x1e9 cv)))"
    show "generation (fst (write_queue st (updateListPriceUI lib (Some s) (Some cv))) ''listPrice_out'')
          = generation (st ''listPrice_out'') + 2
          \<and> ''listPrice_out'' \<in> set (snd (write_queue st (updateListPriceUI lib (Some s) (Some cv))))"
      unfolding updateListPriceUI_calls [OF w]
      using v by (rule clear_then_set_listPrice)
  qed
  show ?thesis using a b c d e by blast
qed

theorem equal_value_write_is_noop_witness:
  "write_batch listed_store [(''listPrice_in'', JStr ''2.000000000'')] = (listed_store, [])
   \<and> generation (fst (write_queue listed_store
         [[(''listPrice_in'', JUndefined)], [(''listPrice_in'', JStr ''2.000000000'')]])
       ''listPrice_in'') = 5
   \<and> ''listPriceNWCPerDUBLR_x1e9''
       \<in> set (affected example_graph (snd (write_queue listed_store
              [[(''listPrice_in'', JUndefined)], [(''listPrice_in'', JStr ''2.000000000'')]])))
   \<and> updateListPriceUI example_lib (Some '' '') (Some example_contract_vals)
       = [[(''listPrice_out'', JUndefined), (''listPrice_in'', JUndefined)],
          [(''listPrice_out'', JStr ''2.000000000''), (''listPrice_in'', JStr ''2.000000000'')]]
   \<and> generation (fst (write_queue listed_store
          (updateListPriceUI example_lib (Some '' '') (Some example_contract_vals)))
        ''listPrice_out'') = 5"
proof -
  have p: "formatPrice example_lib (Some (mintPriceNWCPerDUBLR_x1e9 example_contract_vals))
           = ''2.000000000''"
    by (simp add: formatPrice_def priceToNumber_def toNumber_def example_lib_def)
  have w: "list_all isWhite '' ''" by (simp add: isWhite_def)
  have v: "cur_value (listed_store ''listPrice_in'') = JStr ''2.000000000''"
    and v': "cur_value (listed_store ''listPrice_out'') = JStr ''2.000000000''"
    and n: "generation (listed_store ''listPrice_in'') = 3"
    and n': "generation (listed_store ''listPrice_out'') = 3"
    by (simp_all add: listed_store_def)
  have d: "(''listPriceNWCPerDUBLR_x1e9'', [''listPrice_in'', ''contractVals'', ''networkCurrency''])
           \<in> set example_graph"
    by (simp add: example_graph_def)
  note t = equal_value_write_is_noop [where st = listed_store and k = "''listPrice_in''"
      and v = "JStr ''2.000000000''" and g = example_graph
      and batch = "[(''listPrice_in'', JStr ''2.000000000'')]" and s = "'' ''"
      and lib = example_lib and cv = example_contract_vals]
  have dep: "''listPriceNWCPerDUBLR_x1e9''
       \<in> set (affected example_graph (snd (write_queue listed_store
              [[(''listPrice_in'', JUndefined)], [(''listPrice_in'', JStr ''2.000000000'')]])))"
    using t v d by (metis jsval.distinct(5) list.set_intros(1))
  have u: "updateListPriceUI example_lib (Some '' '') (Some example_contract_vals)
       = [[(''listPrice_out'', JUndefined), (''listPrice_in'', JUndefined)],
          [(''listPrice_out'', JStr ''2.000000000''), (''listPrice_in'', JStr ''2.000000000'')]]"
    using t w p by simp
  have pre: "list_all isWhite '' '' \<and> cur_value (listed_store ''listPrice_out'')
       = JStr (formatPrice example_lib (Some (mintPriceNWCPerDUBLR_x1e9 example_contract_vals)))"
    using w v' p by simp
  with t have "generation (fst (write_queue listed_store
          (updateListPriceUI example_lib (Some '' '') (Some example_contract_vals)))
        ''listPrice_out'') = generation (listed_store ''listPrice_out'') + 2"
    by blast
  then have g5: "generation (fst (write_queue listed_store
          (updateListPriceUI example_lib (Some '' '') (Some example_contract_vals)))
        ''listPrice_out'') = 5"
    using n' by simp
  have a: "write_batch listed_store [(''listPrice_in'', JStr ''2.000000000'')] = (listed_store, [])"
    using t v by simp
  have b: "generation (fst (write_queue listed_store
         [[(''listPrice_in'', JUndefined)], [(''listPrice_in'', JStr ''2.000000000'')]])
       ''listPrice_in'') = 5"
    using t v n by simp
  from a b dep u g5 show ?thesis by (intro conjI)
qed

lemma core_step_generation_mono: "passGeneration s \<le> passGeneration (core_step g s ev)"
  by (cases ev) (auto simp: core_step_def Let_def split: compute_result.splits)

lemma core_run_generation_mono: "passGeneration s \<le> passGeneration (core_run g s evs)"
proof (induction evs arbitrary: s)
  case Nil
  show ?case by (simp add: core_run_def)
next
  case (Cons ev evs)
  have "passGeneration s \<le> passGeneration (core_step g s ev)"
    by (rule core_step_generation_mono)
  also have "\<dots> \<le> passGeneration (core_run g (core_step g s ev) evs)" by (rule Cons.IH)
  finally show ?case by (simp add: core_run_def)
qed

lemma stale_resolve_discarded:
  "gen < passGeneration s \<Longrightarrow> store (core_step g s (NodeResolved n gen r)) = store s"
  by (simp add: core_step_def Let_def)

lemma superseding_write:
  assumes "snd (write_batch (store s) batch) \<noteq> []"
  shows "passGeneration (core_step g s (ExternalWrite batch)) = passGeneration s + 1"
    and "set (inflight s) \<subseteq> set (inflight (core_step g s (ExternalWrite batch)))"
    and "(n, passGeneration s) \<in> set (inflight s)
         \<Longrightarrow> (n, passGeneration s + 1) \<in> set (inflight (core_step g s (ExternalWrite batch)))"
proof -
  show "passGeneration (core_step g s (ExternalWrite batch)) = passGeneration s + 1"
    using assms by (simp add: core_step_def Let_def)
  show "set (inflight s) \<subseteq> set (inflight (core_step g s (ExternalWrite batch)))"
    using assms by (auto simp: core_step_def Let_def)
  assume n: "(n, passGeneration s) \<in> set (inflight s)"
  then have "n \<in> set (map fst (filter (\<lambda>c. snd c = passGeneration s) (inflight s)))"
    by force
  then show "(n, passGeneration s + 1) \<in> set (inflight (core_step g s (ExternalWrite batch)))"
    using assms by (simp add: core_step_def Let_def)
qed

lemma current_resolve_committed:
  assumes "(n, passGeneration s) \<in> set (inflight s)"
  shows "cur_value (store (core_step g s (NodeResolved n (passGeneration s) (Produced v))) n) = v"
  using assms by (simp add: core_step_def Let_def write_batch_def write_field_def)

text \<open>
  C1. Let a node \<open>n\<close> be in flight in the current pass, of generation \<open>g1\<close>, when an
  external write that changes a value arrives. The write starts the pass of generation
  \<open>g1 + 1\<close>, which takes \<open>n\<close> over; the computation of \<open>n\<close> in the old pass stays
  in flight. Whatever events follow, when that old computation resolves, with whatever
  result, the Value Store is left as it was: the result is discarded. (Had it resolved
  before the write, its value would have been committed.)
\<close>

theorem stale_result_never_written:
  "passGeneration s = g1 \<and> (n, g1) \<in> set (inflight s)
   \<and> snd (write_batch (store s) batch) \<noteq> []
   \<longrightarrow> store (core_step g (core_run g (core_step g s (ExternalWrite batch)) evs)
               (NodeResolved n g1 r))
       = store (core_run g (core_step g s (ExternalWrite batch)) evs)
     \<and> passGeneration (core_step g s (ExternalWrite batch)) = g1 + 1
     \<and> (n, g1) \<in> set (inflight (core_step g s (ExternalWrite batch)))
     \<and> (n, g1 + 1) \<in> set (inflight (core_step g s (ExternalWrite batch)))
     \<and> cur_value (store (core_step g s (NodeResolved n g1 (Produced v))) n) = v"
proof (intro impI)
  assume h: "passGeneration s = g1 \<and> (n, g1) \<in> set (inflight s)
     \<and> snd (write_batch (store s) batch) \<noteq> []"
  let ?s1 = "core_step g s (ExternalWrite batch)"
  let ?s2 = "core_run g ?s1 evs"
  have g: "passGeneration ?s1 = g1 + 1" using superseding_write(1) h by blast
  have "passGeneration ?s1 \<le> passGeneration ?s2" by (rule core_run_generation_mono)
  with g have "g1 < passGeneration ?s2" by simp
  then have a: "store (core_step g ?s2 (NodeResolved n g1 r)) = store ?s2"
    by (rule stale_resolve_discarded)
  have b: "(n, g1) \<in> set (inflight ?s1)" using superseding_write(2) h by blast
  have c: "(n, g1 + 1) \<in> set (inflight ?s1)" using superseding_write(3) [of s batch n g] h by blast
  have d: "cur_value (store (core_step g s (NodeResolved n g1 (Produced v))) n) = v"
    using current_resolve_committed [of n s g v] h by blast
  show "store (core_step g ?s2 (NodeResolved n g1 r)) = store ?s2
     \<and> passGeneration ?s1 = g1 + 1 \<and> (n, g1) \<in> set (inflight ?s1)
     \<and> (n, g1 + 1) \<in> set (inflight ?s1)
     \<and> cur_value (store (core_step g s (NodeResolved n g1 (Produced v))) n) = v"
    using a g b c d by blast
qed

lemma superseded_run_values:
  "cur_value (store (core_run example_graph
       (core_step example_graph computing_state (ExternalWrite [(''a'', JNum 2)]))
       [NodeResolved ''c'' 2 (Produced (JNum 20))]) ''b'') = JUndefined
   \<and> cur_value (store (core_run example_graph
       (core_step example_graph computing_state (ExternalWrite [(''a'', JNum 2)]))
       [NodeResolved ''c'' 2 (Produced (JNum 20))]) ''c'') = JNum 20"
  by code_simp

theorem stale_result_never_written_witness:
  "cur_value (store (core_step example_graph
       (core_run example_graph
          (core_step example_graph computing_state (ExternalWrite [(''a'', JNum 2)]))
          [NodeResolved ''c'' 2 (Produced (JNum 20))])
       (NodeResolved ''b'' 1 (Produced (JNum 10)))) ''b'') = JUndefined
   \<and> passGeneration (core_step example_graph computing_state (ExternalWrite [(''a'', JNum 2)])) = 2"
proof -
  have h: "passGeneration computing_state = 1 \<and> (''b'', 1) \<in> set (inflight computing_state)
      \<and> snd (write_batch (store computing_state) [(''a'', JNum 2)]) \<noteq> []"
    by (simp add: computing_state_def write_batch_def write_field_def empty_store_def)
  note t = stale_result_never_written [where s = computing_state and ?g1.0 = 1 and n = "''b''"
      and batch = "[(''a'', JNum 2)]" and g = example_graph
      and evs = "[NodeResolved ''c'' 2 (Produced (JNum 20))]" and r = "Produced (JNum 10)"
      and v = "JNum 10"]
  show ?thesis using t h superseded_run_values by simp
qed

end
